theory Spec2Isabelle
  imports Complex_Main "HOL-Library.Word"
begin

section \<open>The capsule-changing animation notify state\<close>

text \<open>
  A shallow embedding of \<^verbatim>\<open>ANS_ChangeCapsuleBase.cpp\<close>: the three lifecycle
  callbacks \<^verbatim>\<open>NotifyBegin\<close>, \<^verbatim>\<open>NotifyTick\<close>, \<^verbatim>\<open>NotifyEnd\<close> and the three collision
  helpers. The notify object is split into its designer-set properties (a record
  \<open>Config\<close>, never assigned by the code) and its runtime members (a record \<open>Session\<close>).
  Capsule components live in a store indexed by address; a pointer is an address
  option, \<open>None\<close> being \<^verbatim>\<open>nullptr\<close>.

  Conventions of the embedding:
  \<^item> C++ \<^verbatim>\<open>float\<close> is modelled by \<open>real\<close>: arithmetic is exact, there is no rounding,
    no NaN and no infinity.
  \<^item> The engine's component is modelled as the boundary the code uses: one stored value
    per attribute, every setter stores its argument and every getter reads the stored
    value. Side effects that the engine's setters have on other fields are not part
    of the model.
  \<^item> What the code uses but the file does not define (the channel count
    \<^verbatim>\<open>ECC_MAX\<close>, the two colour conversions, the subclass's
    \<^verbatim>\<open>FindCapsuleComponent\<close>) is a parameter, collected in the record \<open>Externals\<close>.
  \<^item> The calls to \<^verbatim>\<open>Super::Notify...\<close> and the debug drawing of \<^verbatim>\<open>NotifyTick\<close>
    (which only reads the component) change neither the session nor a component and
    are left out.
\<close>

subsection \<open>Engine value types\<close>

type_synonym FVector = "real \<times> real \<times> real"
type_synonym FLinearColor = "real \<times> real \<times> real \<times> real"
type_synonym FColor = "8 word \<times> 8 word \<times> 8 word \<times> 8 word"
type_synonym ECollisionChannel = nat

datatype ECollisionEnabled =
  NoCollision | QueryOnly | PhysicsOnly | QueryAndPhysics | ProbeOnly | QueryAndProbe

datatype ECollisionResponse = ECR_Ignore | ECR_Overlap | ECR_Block

text \<open>\<^verbatim>\<open>KINDA_SMALL_NUMBER\<close> is the engine macro \<^verbatim>\<open>1.e-4f\<close>.\<close>

definition KINDA_SMALL_NUMBER :: real where
  "KINDA_SMALL_NUMBER = 1 / 10000"

text \<open>\<^verbatim>\<open>FMath::Clamp(X, Min, Max)\<close> and \<^verbatim>\<open>FMath::Lerp(A, B, Alpha)\<close>; the latter is
  \<^verbatim>\<open>A + Alpha * (B - A)\<close>, component-wise on vectors and colours.\<close>

definition Clamp :: "real \<Rightarrow> real \<Rightarrow> real \<Rightarrow> real" where
  "Clamp X MinV MaxV = (if X < MinV then MinV else if X < MaxV then X else MaxV)"

definition Lerp :: "real \<Rightarrow> real \<Rightarrow> real \<Rightarrow> real" where
  "Lerp A B Alpha = A + Alpha * (B - A)"

fun LerpVector :: "FVector \<Rightarrow> FVector \<Rightarrow> real \<Rightarrow> FVector" where
  "LerpVector (ax, ay, az) (bx, by, bz) Alpha =
     (Lerp ax bx Alpha, Lerp ay by Alpha, Lerp az bz Alpha)"

fun LerpColor :: "FLinearColor \<Rightarrow> FLinearColor \<Rightarrow> real \<Rightarrow> FLinearColor" where
  "LerpColor (ar, ag, ab, aa) (br, bg, bb, ba) Alpha =
     (Lerp ar br Alpha, Lerp ag bg Alpha, Lerp ab bb Alpha, Lerp aa ba Alpha)"

subsection \<open>The blend evaluator\<close>

text \<open>
  Modelled from the spec: the engine class \<^verbatim>\<open>FAlphaBlend\<close> is not part of the file.
  The spec describes an evaluator "parameterized by a duration and an
  interpolation-shape selector, carrying its own internal progress state advanced by
  elapsed frame time", whose blended value is "normalized, already shape-mapped, range
  [0,1]", and for which a zero duration is "instant". The model keeps the engine's field
  names: \<open>AlphaLerp\<close> is the linear progress in [0,1], \<open>BlendTimeRemaining\<close> the time
  left. The shape selector is \<open>Linear\<close> or any other shape, given by its mapping.
\<close>

datatype EAlphaBlendOption = Linear | Shaped "real \<Rightarrow> real"

record FAlphaBlend =
  BlendTime :: real
  BlendOption :: EAlphaBlendOption
  AlphaLerp :: real
  BlendTimeRemaining :: real

definition MakeAlphaBlend :: "real \<Rightarrow> EAlphaBlendOption \<Rightarrow> FAlphaBlend" where
  "MakeAlphaBlend T opt =
     (if T \<le> 0
      then \<lparr>BlendTime = T, BlendOption = opt, AlphaLerp = 1, BlendTimeRemaining = 0\<rparr>
      else \<lparr>BlendTime = T, BlendOption = opt, AlphaLerp = 0, BlendTimeRemaining = T\<rparr>)"

definition Update :: "real \<Rightarrow> FAlphaBlend \<Rightarrow> FAlphaBlend" where
  "Update InDeltaTime b =
     (if AlphaLerp b \<ge> 1 then b
      else if BlendTimeRemaining b > InDeltaTime
      then b\<lparr>AlphaLerp := Clamp (AlphaLerp b
                 + ((1 - AlphaLerp b) / BlendTimeRemaining b) * InDeltaTime) 0 1,
             BlendTimeRemaining := BlendTimeRemaining b - InDeltaTime\<rparr>
      else b\<lparr>AlphaLerp := 1, BlendTimeRemaining := 0\<rparr>)"

definition GetBlendedValue :: "FAlphaBlend \<Rightarrow> real" where
  "GetBlendedValue b =
     (case BlendOption b of
        Linear \<Rightarrow> Clamp (AlphaLerp b) 0 1
      | Shaped f \<Rightarrow> f (AlphaLerp b))"

subsection \<open>The ease curve\<close>

text \<open>\<^verbatim>\<open>EaseCurve.GetRichCurveConst()\<close> is a nullable pointer to a keyed curve; of the
  curve the code uses the number of keys and its evaluation.\<close>

record FRichCurve =
  GetNumKeys :: nat
  Eval :: "real \<Rightarrow> real"

subsection \<open>The capsule component and the store\<close>

text \<open>The engine class \<^verbatim>\<open>UCapsuleComponent\<close> is not part of the file. The record has one
  field for each value the code reads or writes through the component; the spec lists
  the same boundary: "getters/setters for the five attributes" and for the "collision-
  enabled mode, collision profile name, overlap-generation flag, and per-channel
  collision response".\<close>

record UCapsuleComponent =
  CapsuleRadius :: real
  CapsuleHalfHeight :: real
  RelativeScale3D :: FVector
  LineThickness :: real
  ShapeColor :: FColor
  BodyCollisionEnabled :: ECollisionEnabled
  BodyCollisionProfileName :: string
  bBodyGenerateOverlapEvents :: bool
  ResponseToChannels :: "ECollisionChannel \<Rightarrow> ECollisionResponse"

type_synonym World = "nat \<Rightarrow> UCapsuleComponent"

definition GetUnscaledCapsuleRadius :: "UCapsuleComponent \<Rightarrow> real" where
  "GetUnscaledCapsuleRadius c = CapsuleRadius c"

definition GetUnscaledCapsuleHalfHeight :: "UCapsuleComponent \<Rightarrow> real" where
  "GetUnscaledCapsuleHalfHeight c = CapsuleHalfHeight c"

definition GetRelativeScale3D :: "UCapsuleComponent \<Rightarrow> FVector" where
  "GetRelativeScale3D c = RelativeScale3D c"

definition GetCollisionEnabled :: "UCapsuleComponent \<Rightarrow> ECollisionEnabled" where
  "GetCollisionEnabled c = BodyCollisionEnabled c"

definition GetCollisionProfileName :: "UCapsuleComponent \<Rightarrow> string" where
  "GetCollisionProfileName c = BodyCollisionProfileName c"

definition GetGenerateOverlapEvents :: "UCapsuleComponent \<Rightarrow> bool" where
  "GetGenerateOverlapEvents c = bBodyGenerateOverlapEvents c"

definition GetCollisionResponseToChannel ::
  "UCapsuleComponent \<Rightarrow> ECollisionChannel \<Rightarrow> ECollisionResponse" where
  "GetCollisionResponseToChannel c Chan = ResponseToChannels c Chan"

definition SetCapsuleRadius :: "real \<Rightarrow> UCapsuleComponent \<Rightarrow> UCapsuleComponent" where
  "SetCapsuleRadius r c = c\<lparr>CapsuleRadius := r\<rparr>"

definition SetCapsuleHalfHeight :: "real \<Rightarrow> UCapsuleComponent \<Rightarrow> UCapsuleComponent" where
  "SetCapsuleHalfHeight h c = c\<lparr>CapsuleHalfHeight := h\<rparr>"

definition SetRelativeScale3D :: "FVector \<Rightarrow> UCapsuleComponent \<Rightarrow> UCapsuleComponent" where
  "SetRelativeScale3D v c = c\<lparr>RelativeScale3D := v\<rparr>"

definition SetLineThickness :: "real \<Rightarrow> UCapsuleComponent \<Rightarrow> UCapsuleComponent" where
  "SetLineThickness t c = c\<lparr>LineThickness := t\<rparr>"

definition SetShapeColor :: "FColor \<Rightarrow> UCapsuleComponent \<Rightarrow> UCapsuleComponent" where
  "SetShapeColor col c = c\<lparr>ShapeColor := col\<rparr>"

definition SetCollisionEnabled ::
  "ECollisionEnabled \<Rightarrow> UCapsuleComponent \<Rightarrow> UCapsuleComponent" where
  "SetCollisionEnabled m c = c\<lparr>BodyCollisionEnabled := m\<rparr>"

definition SetCollisionProfileName :: "string \<Rightarrow> UCapsuleComponent \<Rightarrow> UCapsuleComponent" where
  "SetCollisionProfileName n c = c\<lparr>BodyCollisionProfileName := n\<rparr>"

definition SetGenerateOverlapEvents :: "bool \<Rightarrow> UCapsuleComponent \<Rightarrow> UCapsuleComponent" where
  "SetGenerateOverlapEvents b c = c\<lparr>bBodyGenerateOverlapEvents := b\<rparr>"

definition SetCollisionResponseToChannel ::
  "ECollisionChannel \<Rightarrow> ECollisionResponse \<Rightarrow> UCapsuleComponent \<Rightarrow> UCapsuleComponent" where
  "SetCollisionResponseToChannel Chan r c =
     c\<lparr>ResponseToChannels := (ResponseToChannels c)(Chan := r)\<rparr>"

subsection \<open>The collision settings block\<close>

text \<open>\<^verbatim>\<open>CustomResponses\<close> is a map from channel to response, filled with \<^verbatim>\<open>Add\<close> and
  traversed in insertion order: an association list. \<^verbatim>\<open>Add\<close> replaces the value of a
  key that is present and appends a new key.\<close>

fun MapAdd :: "'k \<Rightarrow> 'v \<Rightarrow> ('k \<times> 'v) list \<Rightarrow> ('k \<times> 'v) list" where
  "MapAdd k v [] = [(k, v)]"
| "MapAdd k v ((k', v') # m) = (if k' = k then (k, v) # m else (k', v') # MapAdd k v m)"

record FCapsuleCollisionSettings =
  CollisionEnabled :: ECollisionEnabled
  bForceQueryOnly :: bool
  bOverrideCollisionEnabled :: bool
  CollisionProfileName :: string
  bOverrideCollisionProfileName :: bool
  bGenerateOverlapEvents :: bool
  bOverrideGenerateOverlapEvents :: bool
  CustomResponses :: "(ECollisionChannel \<times> ECollisionResponse) list"
  bOverrideCustomResponses :: bool

subsection \<open>The notify object\<close>

text \<open>The header that declares the class \<^verbatim>\<open>UANS_ChangeCapsuleBase\<close> and the struct of
  the collision settings is not part of the sources. The fields below are the members
  that the functions of \<^verbatim>\<open>ANS_ChangeCapsuleBase.cpp\<close> read and write, with the types
  their uses require; the debug flag, which only controls drawing, is left out.\<close>

record Config =
  bModifyRadius :: bool
  NewRadius :: real
  bModifyHalfHeight :: bool
  NewHalfHeight :: real
  bModifyScale :: bool
  NewScale :: FVector
  bModifyLineThickness :: bool
  NewLineThickness :: real
  bModifyShapeColor :: bool
  NewShapeColor :: FLinearColor
  BlendTimeIn :: real
  BlendTimeOut :: real
  BlendOptionIn :: EAlphaBlendOption
  BlendOptionOut :: EAlphaBlendOption
  EaseCurve :: "FRichCurve option"
  CapsuleCollisionSettings :: FCapsuleCollisionSettings

record Session =
  ElapsedTime :: real
  NotifyTotalDuration :: real
  bHasValidOriginals :: bool
  CapsuleComp :: "nat option"
  OriginalRadius :: real
  OriginalHalfHeight :: real
  OriginalScale :: FVector
  OriginalLineThickness :: real
  OriginalShapeColor :: FLinearColor
  TargetRadius :: real
  TargetHalfHeight :: real
  TargetScale :: FVector
  TargetLineThickness :: real
  TargetShapeColor :: FLinearColor
  BlendInAlpha :: FAlphaBlend
  BlendOutAlpha :: FAlphaBlend
  OriginalCapsuleSettings :: FCapsuleCollisionSettings

record Externals =
  ECC_MAX :: nat
  ReinterpretAsLinear :: "FColor \<Rightarrow> FLinearColor"
  ToFColor :: "FLinearColor \<Rightarrow> FColor"
  FindCapsuleComponent :: "nat \<Rightarrow> nat option"

subsection \<open>Collision helpers\<close>

definition SaveOriginalCollisionSettings ::
  "Externals \<Rightarrow> Session \<times> World \<Rightarrow> Session \<times> World" where
  "SaveOriginalCollisionSettings X = (\<lambda>(s, W).
     case CapsuleComp s of
       None \<Rightarrow> (s, W)
     | Some p \<Rightarrow>
         let orig = OriginalCapsuleSettings s;
             orig = orig\<lparr>CollisionEnabled := GetCollisionEnabled (W p)\<rparr>;
             orig = orig\<lparr>bForceQueryOnly := False\<rparr>;
             orig = orig\<lparr>bOverrideCollisionEnabled := True\<rparr>;
             orig = orig\<lparr>CollisionProfileName := GetCollisionProfileName (W p)\<rparr>;
             orig = orig\<lparr>bOverrideCollisionProfileName := True\<rparr>;
             orig = orig\<lparr>bGenerateOverlapEvents := GetGenerateOverlapEvents (W p)\<rparr>;
             orig = orig\<lparr>bOverrideGenerateOverlapEvents := True\<rparr>;
             orig = orig\<lparr>CustomResponses := []\<rparr>;
             orig = orig\<lparr>CustomResponses :=
                   foldl (\<lambda>m Chan. MapAdd Chan (GetCollisionResponseToChannel (W p) Chan) m)
                     (CustomResponses orig) [0 ..< ECC_MAX X]\<rparr>;
             orig = orig\<lparr>bOverrideCustomResponses := True\<rparr>
         in (s\<lparr>OriginalCapsuleSettings := orig\<rparr>, W))"

definition SetResponses ::
  "(ECollisionChannel \<times> ECollisionResponse) list \<Rightarrow> UCapsuleComponent \<Rightarrow> UCapsuleComponent" where
  "SetResponses m c = foldl (\<lambda>c (Key, Value). SetCollisionResponseToChannel Key Value c) c m"

definition RestoreOriginalCollisionSettings :: "Session \<times> World \<Rightarrow> Session \<times> World" where
  "RestoreOriginalCollisionSettings = (\<lambda>(s, W).
     case CapsuleComp s of
       None \<Rightarrow> (s, W)
     | Some p \<Rightarrow>
         let orig = OriginalCapsuleSettings s;
             c = W p;
             c = SetCollisionEnabled (CollisionEnabled orig) c;
             c = SetCollisionProfileName (CollisionProfileName orig) c;
             c = SetGenerateOverlapEvents (bGenerateOverlapEvents orig) c;
             c = SetResponses (CustomResponses orig) c
         in (s, W(p := c)))"

definition ApplyCollisionSettings :: "Config \<Rightarrow> Session \<times> World \<Rightarrow> Session \<times> World" where
  "ApplyCollisionSettings cfg = (\<lambda>(s, W).
     case CapsuleComp s of
       None \<Rightarrow> (s, W)
     | Some p \<Rightarrow>
         let cs = CapsuleCollisionSettings cfg;
             c = W p;
             c = (if bOverrideCollisionEnabled cs
                  then let NewMode = CollisionEnabled cs;
                           NewMode = (if bForceQueryOnly cs then QueryOnly else NewMode)
                       in SetCollisionEnabled NewMode c
                  else c);
             c = (if bOverrideCollisionProfileName cs
                  then SetCollisionProfileName (CollisionProfileName cs) c else c);
             c = (if bOverrideGenerateOverlapEvents cs
                  then SetGenerateOverlapEvents (bGenerateOverlapEvents cs) c else c);
             c = (if bOverrideCustomResponses cs
                  then SetResponses (CustomResponses cs) c else c)
         in (s, W(p := c)))"

subsection \<open>NotifyBegin\<close>

definition NotifyBegin ::
  "Externals \<Rightarrow> Config \<Rightarrow> nat option \<Rightarrow> real \<Rightarrow> Session \<times> World \<Rightarrow> Session \<times> World" where
  "NotifyBegin X cfg MeshComp TotalDuration = (\<lambda>(s, W).
     let s = s\<lparr>ElapsedTime := 0, NotifyTotalDuration := TotalDuration,
               bHasValidOriginals := False, CapsuleComp := None\<rparr>
     in case MeshComp of
       None \<Rightarrow> (s, W)
     | Some mesh \<Rightarrow>
         let s = s\<lparr>CapsuleComp := FindCapsuleComponent X mesh\<rparr>
         in case CapsuleComp s of
           None \<Rightarrow> (s, W)
         | Some p \<Rightarrow>
             let s = s\<lparr>OriginalRadius := GetUnscaledCapsuleRadius (W p),
                       OriginalHalfHeight := GetUnscaledCapsuleHalfHeight (W p),
                       OriginalScale := GetRelativeScale3D (W p),
                       OriginalShapeColor := ReinterpretAsLinear X (ShapeColor (W p))\<rparr>;
                 s = s\<lparr>TargetRadius :=
                         (if bModifyRadius cfg then NewRadius cfg else OriginalRadius s),
                       TargetHalfHeight :=
                         (if bModifyHalfHeight cfg then NewHalfHeight cfg
                          else OriginalHalfHeight s),
                       TargetScale :=
                         (if bModifyScale cfg then NewScale cfg else OriginalScale s),
                       TargetLineThickness :=
                         (if bModifyLineThickness cfg then NewLineThickness cfg
                          else OriginalLineThickness s),
                       TargetShapeColor :=
                         (if bModifyShapeColor cfg then NewShapeColor cfg
                          else OriginalShapeColor s)\<rparr>;
                 s = s\<lparr>bHasValidOriginals := True\<rparr>;
                 s = s\<lparr>BlendInAlpha := MakeAlphaBlend
                         (if BlendTimeIn cfg > KINDA_SMALL_NUMBER then BlendTimeIn cfg else 0)
                         (BlendOptionIn cfg)\<rparr>;
                 s = s\<lparr>BlendOutAlpha := MakeAlphaBlend
                         (if BlendTimeOut cfg > KINDA_SMALL_NUMBER then BlendTimeOut cfg else 0)
                         (BlendOptionOut cfg)\<rparr>;
                 c = W p;
                 c = (if BlendTimeIn cfg \<le> KINDA_SMALL_NUMBER
                      then
                        let c = (if bModifyRadius cfg
                                 then SetCapsuleRadius (TargetRadius s) c else c);
                            c = (if bModifyHalfHeight cfg
                                 then SetCapsuleHalfHeight (TargetHalfHeight s) c else c);
                            c = (if bModifyScale cfg
                                 then SetRelativeScale3D (TargetScale s) c else c);
                            c = (if bModifyLineThickness cfg
                                 then SetLineThickness (TargetLineThickness s) c else c);
                            c = (if bModifyShapeColor cfg
                                 then SetShapeColor (ToFColor X (TargetShapeColor s)) c else c)
                        in c
                      else c)
             in ApplyCollisionSettings cfg
                  (SaveOriginalCollisionSettings X (s, W(p := c))))"

subsection \<open>NotifyTick\<close>

text \<open>Step 1 of \<^verbatim>\<open>NotifyTick\<close>: the elapsed time is advanced, the phase is chosen by the
  first matching condition, and the raw alpha is clamped. The local \<^verbatim>\<open>OutElapsed\<close> of
  the blend-out branch is computed by the code and never used: the blend-out evaluator
  is advanced by the frame's delta time.\<close>

definition TickRawAlpha :: "Config \<Rightarrow> real \<Rightarrow> Session \<Rightarrow> real \<times> Session" where
  "TickRawAlpha cfg FrameDeltaTime s =
     (let s = s\<lparr>ElapsedTime := ElapsedTime s + FrameDeltaTime\<rparr>;
          (RawAlpha, s) =
            (if BlendTimeIn cfg > KINDA_SMALL_NUMBER \<and> ElapsedTime s < BlendTimeIn cfg
             then let s = s\<lparr>BlendInAlpha := Update FrameDeltaTime (BlendInAlpha s)\<rparr>
                  in (GetBlendedValue (BlendInAlpha s), s)
             else if ElapsedTime s \<ge> BlendTimeIn cfg
                     \<and> ElapsedTime s \<le> NotifyTotalDuration s - BlendTimeOut cfg
             then (1, s)
             else if BlendTimeOut cfg > KINDA_SMALL_NUMBER
                     \<and> ElapsedTime s > NotifyTotalDuration s - BlendTimeOut cfg
             then let s = s\<lparr>BlendOutAlpha := Update FrameDeltaTime (BlendOutAlpha s)\<rparr>
                  in (1 - GetBlendedValue (BlendOutAlpha s), s)
             else (1, s))
      in (Clamp RawAlpha 0 1, s))"

text \<open>Step 2: the optional remapping through the ease curve.\<close>

definition ApplyEaseCurve :: "Config \<Rightarrow> real \<Rightarrow> real" where
  "ApplyEaseCurve cfg RawAlpha =
     (case EaseCurve cfg of
        None \<Rightarrow> RawAlpha
      | Some curve \<Rightarrow>
          if GetNumKeys curve > 0 then Clamp (Eval curve RawAlpha) 0 1 else RawAlpha)"

definition NotifyTick ::
  "Externals \<Rightarrow> Config \<Rightarrow> real \<Rightarrow> Session \<times> World \<Rightarrow> Session \<times> World" where
  "NotifyTick X cfg FrameDeltaTime = (\<lambda>(s, W).
     case CapsuleComp s of
       None \<Rightarrow> (s, W)
     | Some p \<Rightarrow>
         if \<not> bHasValidOriginals s then (s, W)
         else
           let (RawAlpha, s) = TickRawAlpha cfg FrameDeltaTime s;
               RawAlpha = ApplyEaseCurve cfg RawAlpha;
               c = W p;
               c = (if bModifyRadius cfg
                    then SetCapsuleRadius
                           (Lerp (OriginalRadius s) (TargetRadius s) RawAlpha) c
                    else c);
               c = (if bModifyHalfHeight cfg
                    then SetCapsuleHalfHeight
                           (Lerp (OriginalHalfHeight s) (TargetHalfHeight s) RawAlpha) c
                    else c);
               c = (if bModifyScale cfg
                    then SetRelativeScale3D
                           (LerpVector (OriginalScale s) (TargetScale s) RawAlpha) c
                    else c);
               c = (if bModifyLineThickness cfg
                    then SetLineThickness
                           (Lerp (OriginalLineThickness s) (TargetLineThickness s) RawAlpha) c
                    else c);
               c = (if bModifyShapeColor cfg
                    then SetShapeColor
                           (ToFColor X
                              (LerpColor (OriginalShapeColor s) (TargetShapeColor s) RawAlpha)) c
                    else c)
           in (s, W(p := c)))"

subsection \<open>NotifyEnd\<close>

definition NotifyEnd :: "Externals \<Rightarrow> Config \<Rightarrow> Session \<times> World \<Rightarrow> Session \<times> World" where
  "NotifyEnd X cfg = (\<lambda>(s, W).
     case CapsuleComp s of
       None \<Rightarrow> (s, W)
     | Some p \<Rightarrow>
         if \<not> bHasValidOriginals s then (s, W)
         else
           let c = W p;
               c = (if bModifyRadius cfg
                    then SetCapsuleRadius (OriginalRadius s) c else c);
               c = (if bModifyHalfHeight cfg
                    then SetCapsuleHalfHeight (OriginalHalfHeight s) c else c);
               c = (if bModifyScale cfg
                    then SetRelativeScale3D (OriginalScale s) c else c);
               c = (if bModifyLineThickness cfg
                    then SetLineThickness (OriginalLineThickness s) c else c);
               c = (if bModifyShapeColor cfg
                    then SetShapeColor (ToFColor X (OriginalShapeColor s)) c else c);
               (s, W) = RestoreOriginalCollisionSettings (s, W(p := c))
           in (s\<lparr>CapsuleComp := None, bHasValidOriginals := False,
                  ElapsedTime := 0, NotifyTotalDuration := 0\<rparr>, W))"

subsection \<open>Driving the callbacks\<close>

text \<open>The host calls the three callbacks one after the other. \<open>Ticks\<close> runs
  \<^verbatim>\<open>NotifyTick\<close> once per frame delta of a list; \<open>Run\<close> runs any sequence of calls.\<close>

datatype Call = CallBegin "nat option" real | CallTick real | CallEnd

fun Ticks :: "Externals \<Rightarrow> Config \<Rightarrow> real list \<Rightarrow> Session \<times> World \<Rightarrow> Session \<times> World" where
  "Ticks X cfg [] sw = sw"
| "Ticks X cfg (d # ds) sw = Ticks X cfg ds (NotifyTick X cfg d sw)"

fun Step :: "Externals \<Rightarrow> Config \<Rightarrow> Call \<Rightarrow> Session \<times> World \<Rightarrow> Session \<times> World" where
  "Step X cfg (CallBegin MeshComp TotalDuration) sw = NotifyBegin X cfg MeshComp TotalDuration sw"
| "Step X cfg (CallTick FrameDeltaTime) sw = NotifyTick X cfg FrameDeltaTime sw"
| "Step X cfg CallEnd sw = NotifyEnd X cfg sw"

fun Run :: "Externals \<Rightarrow> Config \<Rightarrow> Call list \<Rightarrow> Session \<times> World \<Rightarrow> Session \<times> World" where
  "Run X cfg [] sw = sw"
| "Run X cfg (c # cs) sw = Run X cfg cs (Step X cfg c sw)"

text \<open>The session is inactive when either guard of \<^verbatim>\<open>NotifyTick\<close> and \<^verbatim>\<open>NotifyEnd\<close>
  fires.\<close>

definition Inactive :: "Session \<Rightarrow> bool" where
  "Inactive s \<longleftrightarrow> \<not> bHasValidOriginals s \<or> CapsuleComp s = None"

text \<open>For a run of frame deltas \<open>ds\<close> from a state \<open>sw\<close>: the raw alpha that the tick
  number \<open>i\<close> (counted from 0) computes, and the elapsed time it leaves.\<close>

definition TickAlpha ::
  "Externals \<Rightarrow> Config \<Rightarrow> real list \<Rightarrow> Session \<times> World \<Rightarrow> nat \<Rightarrow> real" where
  "TickAlpha X cfg ds sw i =
     fst (TickRawAlpha cfg (ds ! i) (fst (Ticks X cfg (take i ds) sw)))"

definition TickElapsed ::
  "Externals \<Rightarrow> Config \<Rightarrow> real list \<Rightarrow> Session \<times> World \<Rightarrow> nat \<Rightarrow> real" where
  "TickElapsed X cfg ds sw i = ElapsedTime (fst (Ticks X cfg (take (Suc i) ds) sw))"

subsection \<open>Auxiliary notions for the proofs\<close>

text \<open>The elapsed time and the raw alpha of every tick of a run of frame deltas, as a
  list, following the session alone.\<close>

fun AlphaTrace :: "Config \<Rightarrow> real list \<Rightarrow> Session \<Rightarrow> (real \<times> real) list" where
  "AlphaTrace cfg [] s = []"
| "AlphaTrace cfg (d # ds) s =
     (ElapsedTime (snd (TickRawAlpha cfg d s)), fst (TickRawAlpha cfg d s))
       # AlphaTrace cfg ds (snd (TickRawAlpha cfg d s))"

text \<open>\<open>Later\<close>: what the elapsed time and raw alpha of any later tick satisfy, seen
  from a session. \<open>AlphaOrdered\<close>: the order between the raw alphas of an earlier and
  a later tick.\<close>

definition Later :: "Config \<Rightarrow> Session \<Rightarrow> real \<times> real \<Rightarrow> bool" where
  "Later cfg s x \<longleftrightarrow>
     ElapsedTime s \<le> fst x
     \<and> (fst x < BlendTimeIn cfg \<longrightarrow>
          (if BlendTimeIn cfg > KINDA_SMALL_NUMBER
           then 1 - BlendTimeRemaining (BlendInAlpha s) / BlendTimeIn cfg \<le> snd x
           else snd x = 1))
     \<and> (BlendTimeIn cfg \<le> fst x \<and> fst x \<le> NotifyTotalDuration s - BlendTimeOut cfg \<longrightarrow>
          snd x = 1)
     \<and> (NotifyTotalDuration s - BlendTimeOut cfg < fst x \<longrightarrow>
          (if BlendTimeOut cfg > KINDA_SMALL_NUMBER
           then snd x \<le> BlendTimeRemaining (BlendOutAlpha s) / BlendTimeOut cfg
           else snd x = 1))"

definition AlphaOrdered :: "Config \<Rightarrow> real \<Rightarrow> real \<times> real \<Rightarrow> real \<times> real \<Rightarrow> bool" where
  "AlphaOrdered cfg T x y \<longleftrightarrow>
     (fst y < BlendTimeIn cfg \<longrightarrow> snd x \<le> snd y)
     \<and> (T - BlendTimeOut cfg < fst x \<longrightarrow> snd y \<le> snd x)"

text \<open>The table that results from writing the pairs of a response map, in order, over a
  table of responses.\<close>

definition WriteAll :: "(ECollisionChannel \<times> ECollisionResponse) list
    \<Rightarrow> (ECollisionChannel \<Rightarrow> ECollisionResponse) \<Rightarrow> (ECollisionChannel \<Rightarrow> ECollisionResponse)" where
  "WriteAll m f = foldl (\<lambda>f (Key, Value). f(Key := Value)) f m"

text \<open>\<open>AttrFrame\<close>: a component differs from an earlier one at most in the attributes
  whose modify flag is set. \<open>CollisionSame\<close>: the four collision sub-fields agree.
  \<open>SameSnapshot\<close>: two sessions agree on everything but the elapsed time and the two
  evaluators.\<close>

definition AttrFrame :: "Config \<Rightarrow> UCapsuleComponent \<Rightarrow> UCapsuleComponent \<Rightarrow> bool" where
  "AttrFrame cfg c c' \<longleftrightarrow>
     (\<not> bModifyRadius cfg \<longrightarrow> CapsuleRadius c' = CapsuleRadius c)
     \<and> (\<not> bModifyHalfHeight cfg \<longrightarrow> CapsuleHalfHeight c' = CapsuleHalfHeight c)
     \<and> (\<not> bModifyScale cfg \<longrightarrow> RelativeScale3D c' = RelativeScale3D c)
     \<and> (\<not> bModifyLineThickness cfg \<longrightarrow> LineThickness c' = LineThickness c)
     \<and> (\<not> bModifyShapeColor cfg \<longrightarrow> ShapeColor c' = ShapeColor c)"

definition CollisionSame :: "UCapsuleComponent \<Rightarrow> UCapsuleComponent \<Rightarrow> bool" where
  "CollisionSame c c' \<longleftrightarrow>
     BodyCollisionEnabled c' = BodyCollisionEnabled c
     \<and> BodyCollisionProfileName c' = BodyCollisionProfileName c
     \<and> bBodyGenerateOverlapEvents c' = bBodyGenerateOverlapEvents c
     \<and> ResponseToChannels c' = ResponseToChannels c"

definition SameSnapshot :: "Session \<Rightarrow> Session \<Rightarrow> bool" where
  "SameSnapshot s s' \<longleftrightarrow>
     NotifyTotalDuration s' = NotifyTotalDuration s
     \<and> bHasValidOriginals s' = bHasValidOriginals s
     \<and> CapsuleComp s' = CapsuleComp s
     \<and> OriginalRadius s' = OriginalRadius s
     \<and> OriginalHalfHeight s' = OriginalHalfHeight s
     \<and> OriginalScale s' = OriginalScale s
     \<and> OriginalLineThickness s' = OriginalLineThickness s
     \<and> OriginalShapeColor s' = OriginalShapeColor s
     \<and> TargetRadius s' = TargetRadius s
     \<and> TargetHalfHeight s' = TargetHalfHeight s
     \<and> TargetScale s' = TargetScale s
     \<and> TargetLineThickness s' = TargetLineThickness s
     \<and> TargetShapeColor s' = TargetShapeColor s
     \<and> OriginalCapsuleSettings s' = OriginalCapsuleSettings s"

text \<open>\<open>AtTarget\<close>: every attribute whose modify flag is set holds the session's resolved
  target value on the component, the shape colour through the conversion that the code
  applies when it writes a colour.\<close>

definition AtTarget :: "Externals \<Rightarrow> Config \<Rightarrow> Session \<Rightarrow> UCapsuleComponent \<Rightarrow> bool" where
  "AtTarget X cfg s c \<longleftrightarrow>
     (bModifyRadius cfg \<longrightarrow> CapsuleRadius c = TargetRadius s)
     \<and> (bModifyHalfHeight cfg \<longrightarrow> CapsuleHalfHeight c = TargetHalfHeight s)
     \<and> (bModifyScale cfg \<longrightarrow> RelativeScale3D c = TargetScale s)
     \<and> (bModifyLineThickness cfg \<longrightarrow> LineThickness c = TargetLineThickness s)
     \<and> (bModifyShapeColor cfg \<longrightarrow> ShapeColor c = ToFColor X (TargetShapeColor s))"

text \<open>A linear evaluator of duration \<open>D\<close> whose progress is determined by the time it has
  left.\<close>

definition LinearBlend :: "real \<Rightarrow> FAlphaBlend \<Rightarrow> bool" where
  "LinearBlend D b \<longleftrightarrow>
     BlendOption b = Linear \<and> 0 \<le> BlendTimeRemaining b \<and> BlendTimeRemaining b \<le> D
     \<and> 0 < D \<and> AlphaLerp b = 1 - BlendTimeRemaining b / D"

text \<open>\<open>BlendsOk\<close>: each evaluator of a session that is used at all (its configured
  duration exceeds the threshold) is a linear evaluator of that duration.
  \<open>PhaseAlpha\<close>: the raw alpha of a tick, read off the session the tick leaves.\<close>

definition BlendOk :: "real \<Rightarrow> FAlphaBlend \<Rightarrow> bool" where
  "BlendOk D b \<longleftrightarrow> (D > KINDA_SMALL_NUMBER \<longrightarrow> LinearBlend D b)"

definition BlendsOk :: "Config \<Rightarrow> Session \<Rightarrow> bool" where
  "BlendsOk cfg s \<longleftrightarrow>
     BlendOk (BlendTimeIn cfg) (BlendInAlpha s) \<and> BlendOk (BlendTimeOut cfg) (BlendOutAlpha s)"

definition PhaseAlpha :: "Config \<Rightarrow> Session \<Rightarrow> real" where
  "PhaseAlpha cfg s =
     (if BlendTimeIn cfg > KINDA_SMALL_NUMBER \<and> ElapsedTime s < BlendTimeIn cfg
      then 1 - BlendTimeRemaining (BlendInAlpha s) / BlendTimeIn cfg
      else if ElapsedTime s \<ge> BlendTimeIn cfg
              \<and> ElapsedTime s \<le> NotifyTotalDuration s - BlendTimeOut cfg
      then 1
      else if BlendTimeOut cfg > KINDA_SMALL_NUMBER
              \<and> ElapsedTime s > NotifyTotalDuration s - BlendTimeOut cfg
      then BlendTimeRemaining (BlendOutAlpha s) / BlendTimeOut cfg
      else 1)"



subsection \<open>Example values\<close>

definition ExampleExternals :: Externals where
  "ExampleExternals =
     \<lparr>ECC_MAX = 2,
      ReinterpretAsLinear = (\<lambda>(r, g, b, a).
         (real (unat r) / 255, real (unat g) / 255, real (unat b) / 255, real (unat a) / 255)),
      ToFColor = (\<lambda>(r, g, b, a).
         (of_nat (nat \<lfloor>r * 255\<rfloor>), of_nat (nat \<lfloor>g * 255\<rfloor>),
          of_nat (nat \<lfloor>b * 255\<rfloor>), of_nat (nat \<lfloor>a * 255\<rfloor>))),
      FindCapsuleComponent = (\<lambda>mesh. if mesh = 0 then Some 7 else None)\<rparr>"

definition ExampleCollision :: FCapsuleCollisionSettings where
  "ExampleCollision =
     \<lparr>CollisionEnabled = NoCollision, bForceQueryOnly = True,
      bOverrideCollisionEnabled = True, CollisionProfileName = ''Ragdoll'',
      bOverrideCollisionProfileName = False, bGenerateOverlapEvents = False,
      bOverrideGenerateOverlapEvents = True, CustomResponses = [(1, ECR_Ignore)],
      bOverrideCustomResponses = True\<rparr>"

definition ExampleCapsule :: UCapsuleComponent where
  "ExampleCapsule =
     \<lparr>CapsuleRadius = 30, CapsuleHalfHeight = 90, RelativeScale3D = (1, 1, 1),
      LineThickness = 2, ShapeColor = (255, 0, 0, 255),
      BodyCollisionEnabled = QueryAndPhysics, BodyCollisionProfileName = ''Pawn'',
      bBodyGenerateOverlapEvents = True, ResponseToChannels = (\<lambda>Chan. ECR_Block)\<rparr>"

definition ExampleWorld :: World where
  "ExampleWorld = (\<lambda>p. ExampleCapsule)"

definition FreshSession :: Session where
  "FreshSession =
     \<lparr>ElapsedTime = 0, NotifyTotalDuration = 0, bHasValidOriginals = False,
      CapsuleComp = None, OriginalRadius = 0, OriginalHalfHeight = 0,
      OriginalScale = (0, 0, 0), OriginalLineThickness = 0,
      OriginalShapeColor = (0, 0, 0, 0), TargetRadius = 0, TargetHalfHeight = 0,
      TargetScale = (0, 0, 0), TargetLineThickness = 0, TargetShapeColor = (0, 0, 0, 0),
      BlendInAlpha = MakeAlphaBlend 0 Linear, BlendOutAlpha = MakeAlphaBlend 0 Linear,
      OriginalCapsuleSettings = ExampleCollision\<rparr>"

text \<open>The configuration of the spec's first scenario: only the radius is modified, toward
  50, with linear blends of half a second and no ease curve.\<close>

definition ScenarioConfig :: Config where
  "ScenarioConfig =
     \<lparr>bModifyRadius = True, NewRadius = 50, bModifyHalfHeight = False, NewHalfHeight = 0,
      bModifyScale = False, NewScale = (1, 1, 1), bModifyLineThickness = False,
      NewLineThickness = 0, bModifyShapeColor = False, NewShapeColor = (0, 0, 0, 0),
      BlendTimeIn = 1 / 2, BlendTimeOut = 1 / 2, BlendOptionIn = Linear,
      BlendOptionOut = Linear, EaseCurve = None,
      CapsuleCollisionSettings = ExampleCollision\<rparr>"

text \<open>Variants of the scenario: instant blends with three attributes modified; the
  same with an ease curve that halves its argument; blend windows that overlap (used
  with a total duration of 3/2).\<close>

definition InstantConfig :: Config where
  "InstantConfig =
     ScenarioConfig\<lparr>bModifyHalfHeight := True, NewHalfHeight := 60,
       bModifyLineThickness := True, NewLineThickness := 5,
       BlendTimeIn := 0, BlendTimeOut := 0\<rparr>"

definition EasedConfig :: Config where
  "EasedConfig =
     InstantConfig\<lparr>EaseCurve := Some \<lparr>GetNumKeys = 2, Eval = (\<lambda>x. x / 2)\<rparr>\<rparr>"

definition OverlapConfig :: Config where
  "OverlapConfig = ScenarioConfig\<lparr>BlendTimeIn := 1, BlendTimeOut := 1\<rparr>"

section \<open>Basic facts about the callbacks\<close>

lemma SetResponses_eq:
  "SetResponses m c = c\<lparr>ResponseToChannels := WriteAll m (ResponseToChannels c)\<rparr>"
  by (induction m arbitrary: c)
     (auto simp: SetResponses_def WriteAll_def SetCollisionResponseToChannel_def)

lemma MapAdd_fresh: "k \<notin> fst ` set m \<Longrightarrow> MapAdd k v m = m @ [(k, v)]"
  by (induction m) auto

lemma saved_table:
  "foldl (\<lambda>m Chan. MapAdd Chan (g Chan) m) [] [0 ..< n] = map (\<lambda>k. (k, g k)) [0 ..< n]"
  by (induction n) (auto simp: MapAdd_fresh image_iff)

lemma WriteAll_append: "WriteAll (m @ m') f = WriteAll m' (WriteAll m f)"
  by (simp add: WriteAll_def)

lemma WriteAll_saved:
  "WriteAll (map (\<lambda>k. (k, g k)) [0 ..< n]) f k = (if k < n then g k else f k)"
  by (induction n) (auto simp: WriteAll_append, auto simp: WriteAll_def)

lemma cond_upd:
  "(if b then SetCapsuleRadius r c else c) = c\<lparr>CapsuleRadius := (if b then r else CapsuleRadius c)\<rparr>"
  "(if b then SetCapsuleHalfHeight r c else c) = c\<lparr>CapsuleHalfHeight := (if b then r else CapsuleHalfHeight c)\<rparr>"
  "(if b then SetRelativeScale3D v c else c) = c\<lparr>RelativeScale3D := (if b then v else RelativeScale3D c)\<rparr>"
  "(if b then SetLineThickness r c else c) = c\<lparr>LineThickness := (if b then r else LineThickness c)\<rparr>"
  "(if b then SetShapeColor col c else c) = c\<lparr>ShapeColor := (if b then col else ShapeColor c)\<rparr>"
  "(if b then SetCollisionEnabled e c else c) = c\<lparr>BodyCollisionEnabled := (if b then e else BodyCollisionEnabled c)\<rparr>"
  "(if b then SetCollisionProfileName n c else c) = c\<lparr>BodyCollisionProfileName := (if b then n else BodyCollisionProfileName c)\<rparr>"
  "(if b then SetGenerateOverlapEvents g c else c) = c\<lparr>bBodyGenerateOverlapEvents := (if b then g else bBodyGenerateOverlapEvents c)\<rparr>"
  "(if b then SetResponses m c else c) = c\<lparr>ResponseToChannels := (if b then WriteAll m (ResponseToChannels c) else ResponseToChannels c)\<rparr>"
  by (simp_all add: SetCapsuleRadius_def SetCapsuleHalfHeight_def SetRelativeScale3D_def
  SetLineThickness_def SetShapeColor_def SetCollisionEnabled_def SetCollisionProfileName_def
  SetGenerateOverlapEvents_def SetResponses_eq)

lemmas setters = SetCapsuleRadius_def SetCapsuleHalfHeight_def SetRelativeScale3D_def
  SetLineThickness_def SetShapeColor_def SetCollisionEnabled_def SetCollisionProfileName_def
  SetGenerateOverlapEvents_def SetResponses_eq
lemmas getters = GetUnscaledCapsuleRadius_def GetUnscaledCapsuleHalfHeight_def
  GetRelativeScale3D_def GetCollisionEnabled_def GetCollisionProfileName_def
  GetGenerateOverlapEvents_def GetCollisionResponseToChannel_def

lemma NotifyBegin_fail:
  "MeshComp = None \<or> (\<exists>m. MeshComp = Some m \<and> FindCapsuleComponent X m = None) \<Longrightarrow>
   NotifyBegin X cfg MeshComp T (s, W) =
     (s\<lparr>ElapsedTime := 0, NotifyTotalDuration := T, bHasValidOriginals := False, CapsuleComp := None\<rparr>, W)"
  by (auto simp: NotifyBegin_def)

lemma Inactive_Tick: "Inactive s \<Longrightarrow> NotifyTick X cfg d (s, W) = (s, W)"
  by (auto simp: Inactive_def NotifyTick_def split: option.splits)

lemma Inactive_End: "Inactive s \<Longrightarrow> NotifyEnd X cfg (s, W) = (s, W)"
  by (auto simp: Inactive_def NotifyEnd_def split: option.splits)

lemma End_Inactive: "Inactive (fst (NotifyEnd X cfg (s, W)))"
  by (auto simp: Inactive_def NotifyEnd_def Let_def RestoreOriginalCollisionSettings_def split: option.splits prod.splits)


lemma Save_ok:
  "CapsuleComp s = Some p \<Longrightarrow>
   SaveOriginalCollisionSettings X (s, W) =
     (s\<lparr>OriginalCapsuleSettings := (OriginalCapsuleSettings s)
         \<lparr>CollisionEnabled := BodyCollisionEnabled (W p), bForceQueryOnly := False,
          bOverrideCollisionEnabled := True,
          CollisionProfileName := BodyCollisionProfileName (W p),
          bOverrideCollisionProfileName := True,
          bGenerateOverlapEvents := bBodyGenerateOverlapEvents (W p),
          bOverrideGenerateOverlapEvents := True,
          CustomResponses := map (\<lambda>k. (k, ResponseToChannels (W p) k)) [0 ..< ECC_MAX X],
          bOverrideCustomResponses := True\<rparr>\<rparr>, W)"
  by (simp add: SaveOriginalCollisionSettings_def Let_def getters saved_table)

lemma Apply_ok:
  "CapsuleComp s = Some p \<Longrightarrow>
   ApplyCollisionSettings cfg (s, W) =
     (s, W(p := (W p)
        \<lparr>BodyCollisionEnabled :=
           (if bOverrideCollisionEnabled (CapsuleCollisionSettings cfg)
            then (if bForceQueryOnly (CapsuleCollisionSettings cfg) then QueryOnly
                  else CollisionEnabled (CapsuleCollisionSettings cfg))
            else BodyCollisionEnabled (W p)),
         BodyCollisionProfileName :=
           (if bOverrideCollisionProfileName (CapsuleCollisionSettings cfg)
            then CollisionProfileName (CapsuleCollisionSettings cfg)
            else BodyCollisionProfileName (W p)),
         bBodyGenerateOverlapEvents :=
           (if bOverrideGenerateOverlapEvents (CapsuleCollisionSettings cfg)
            then bGenerateOverlapEvents (CapsuleCollisionSettings cfg)
            else bBodyGenerateOverlapEvents (W p)),
         ResponseToChannels :=
           (if bOverrideCustomResponses (CapsuleCollisionSettings cfg)
            then WriteAll (CustomResponses (CapsuleCollisionSettings cfg)) (ResponseToChannels (W p))
            else ResponseToChannels (W p))\<rparr>))"
  by (simp add: ApplyCollisionSettings_def Let_def setters)

lemma Begin_ok:
  "FindCapsuleComponent X m = Some p \<Longrightarrow>
   NotifyBegin X cfg (Some m) T (s, W) =
     ApplyCollisionSettings cfg (SaveOriginalCollisionSettings X
       (s\<lparr>ElapsedTime := 0, NotifyTotalDuration := T,
          CapsuleComp := Some p,
          OriginalRadius := CapsuleRadius (W p),
          OriginalHalfHeight := CapsuleHalfHeight (W p),
          OriginalScale := RelativeScale3D (W p),
          OriginalShapeColor := ReinterpretAsLinear X (ShapeColor (W p)),
          TargetRadius := (if bModifyRadius cfg then NewRadius cfg else CapsuleRadius (W p)),
          TargetHalfHeight :=
            (if bModifyHalfHeight cfg then NewHalfHeight cfg else CapsuleHalfHeight (W p)),
          TargetScale := (if bModifyScale cfg then NewScale cfg else RelativeScale3D (W p)),
          TargetLineThickness :=
            (if bModifyLineThickness cfg then NewLineThickness cfg else OriginalLineThickness s),
          TargetShapeColor :=
            (if bModifyShapeColor cfg then NewShapeColor cfg
             else ReinterpretAsLinear X (ShapeColor (W p))),
          bHasValidOriginals := True,
          BlendInAlpha := MakeAlphaBlend
            (if BlendTimeIn cfg > KINDA_SMALL_NUMBER then BlendTimeIn cfg else 0) (BlendOptionIn cfg),
          BlendOutAlpha := MakeAlphaBlend
            (if BlendTimeOut cfg > KINDA_SMALL_NUMBER then BlendTimeOut cfg else 0) (BlendOptionOut cfg)\<rparr>,
        W(p := (W p)
          \<lparr>CapsuleRadius :=
             (if BlendTimeIn cfg \<le> KINDA_SMALL_NUMBER \<and> bModifyRadius cfg
              then NewRadius cfg else CapsuleRadius (W p)),
           CapsuleHalfHeight :=
             (if BlendTimeIn cfg \<le> KINDA_SMALL_NUMBER \<and> bModifyHalfHeight cfg
              then NewHalfHeight cfg else CapsuleHalfHeight (W p)),
           RelativeScale3D :=
             (if BlendTimeIn cfg \<le> KINDA_SMALL_NUMBER \<and> bModifyScale cfg
              then NewScale cfg else RelativeScale3D (W p)),
           LineThickness :=
             (if BlendTimeIn cfg \<le> KINDA_SMALL_NUMBER \<and> bModifyLineThickness cfg
              then NewLineThickness cfg else LineThickness (W p)),
           ShapeColor :=
             (if BlendTimeIn cfg \<le> KINDA_SMALL_NUMBER \<and> bModifyShapeColor cfg
              then ToFColor X (NewShapeColor cfg) else ShapeColor (W p))\<rparr>)))"
  apply (simp only: NotifyBegin_def Let_def prod.case option.case)
  apply (simp add: cond_upd getters del: fun_upd_apply)
  done

lemma TickRawAlpha_fields:
  "ElapsedTime (snd (TickRawAlpha cfg d s)) = ElapsedTime s + d"
  "NotifyTotalDuration (snd (TickRawAlpha cfg d s)) = NotifyTotalDuration s"
  "bHasValidOriginals (snd (TickRawAlpha cfg d s)) = bHasValidOriginals s"
  "CapsuleComp (snd (TickRawAlpha cfg d s)) = CapsuleComp s"
  "OriginalRadius (snd (TickRawAlpha cfg d s)) = OriginalRadius s"
  "OriginalHalfHeight (snd (TickRawAlpha cfg d s)) = OriginalHalfHeight s"
  "OriginalScale (snd (TickRawAlpha cfg d s)) = OriginalScale s"
  "OriginalLineThickness (snd (TickRawAlpha cfg d s)) = OriginalLineThickness s"
  "OriginalShapeColor (snd (TickRawAlpha cfg d s)) = OriginalShapeColor s"
  "TargetRadius (snd (TickRawAlpha cfg d s)) = TargetRadius s"
  "TargetHalfHeight (snd (TickRawAlpha cfg d s)) = TargetHalfHeight s"
  "TargetScale (snd (TickRawAlpha cfg d s)) = TargetScale s"
  "TargetLineThickness (snd (TickRawAlpha cfg d s)) = TargetLineThickness s"
  "TargetShapeColor (snd (TickRawAlpha cfg d s)) = TargetShapeColor s"
  "OriginalCapsuleSettings (snd (TickRawAlpha cfg d s)) = OriginalCapsuleSettings s"
  by (simp_all add: TickRawAlpha_def Let_def)

lemma Tick_ok:
  "CapsuleComp s = Some p \<Longrightarrow> bHasValidOriginals s \<Longrightarrow>
   NotifyTick X cfg d (s, W) =
     (snd (TickRawAlpha cfg d s),
      W(p := (W p)
        \<lparr>CapsuleRadius :=
           (if bModifyRadius cfg
            then Lerp (OriginalRadius s) (TargetRadius s)
                   (ApplyEaseCurve cfg (fst (TickRawAlpha cfg d s)))
            else CapsuleRadius (W p)),
         CapsuleHalfHeight :=
           (if bModifyHalfHeight cfg
            then Lerp (OriginalHalfHeight s) (TargetHalfHeight s)
                   (ApplyEaseCurve cfg (fst (TickRawAlpha cfg d s)))
            else CapsuleHalfHeight (W p)),
         RelativeScale3D :=
           (if bModifyScale cfg
            then LerpVector (OriginalScale s) (TargetScale s)
                   (ApplyEaseCurve cfg (fst (TickRawAlpha cfg d s)))
            else RelativeScale3D (W p)),
         LineThickness :=
           (if bModifyLineThickness cfg
            then Lerp (OriginalLineThickness s) (TargetLineThickness s)
                   (ApplyEaseCurve cfg (fst (TickRawAlpha cfg d s)))
            else LineThickness (W p)),
         ShapeColor :=
           (if bModifyShapeColor cfg
            then ToFColor X (LerpColor (OriginalShapeColor s) (TargetShapeColor s)
                   (ApplyEaseCurve cfg (fst (TickRawAlpha cfg d s))))
            else ShapeColor (W p))\<rparr>))"
  by (simp add: NotifyTick_def Let_def split_beta cond_upd TickRawAlpha_fields del: fun_upd_apply)

lemma End_ok:
  "CapsuleComp s = Some p \<Longrightarrow> bHasValidOriginals s \<Longrightarrow>
   NotifyEnd X cfg (s, W) =
     (s\<lparr>CapsuleComp := None, bHasValidOriginals := False, ElapsedTime := 0,
        NotifyTotalDuration := 0\<rparr>,
      W(p := (W p)
        \<lparr>CapsuleRadius := (if bModifyRadius cfg then OriginalRadius s else CapsuleRadius (W p)),
         CapsuleHalfHeight :=
           (if bModifyHalfHeight cfg then OriginalHalfHeight s else CapsuleHalfHeight (W p)),
         RelativeScale3D :=
           (if bModifyScale cfg then OriginalScale s else RelativeScale3D (W p)),
         LineThickness :=
           (if bModifyLineThickness cfg then OriginalLineThickness s else LineThickness (W p)),
         ShapeColor :=
           (if bModifyShapeColor cfg then ToFColor X (OriginalShapeColor s)
            else ShapeColor (W p)),
         BodyCollisionEnabled := CollisionEnabled (OriginalCapsuleSettings s),
         BodyCollisionProfileName := CollisionProfileName (OriginalCapsuleSettings s),
         bBodyGenerateOverlapEvents := bGenerateOverlapEvents (OriginalCapsuleSettings s),
         ResponseToChannels :=
           WriteAll (CustomResponses (OriginalCapsuleSettings s)) (ResponseToChannels (W p))\<rparr>))"
  by (simp add: NotifyEnd_def RestoreOriginalCollisionSettings_def Let_def cond_upd setters)

lemma Tick_cases:
  "(Inactive s \<and> NotifyTick X cfg d (s, W) = (s, W))
   \<or> (\<exists>p. CapsuleComp s = Some p \<and> bHasValidOriginals s)"
  by (cases "CapsuleComp s") (auto simp: Inactive_def NotifyTick_def)

lemma Tick_AttrFrame: "AttrFrame cfg (W q) (snd (NotifyTick X cfg d (s, W)) q)"
  using Tick_cases [of s X cfg d W] by (auto simp: Tick_ok AttrFrame_def)

lemma Tick_CollisionSame: "CollisionSame (W q) (snd (NotifyTick X cfg d (s, W)) q)"
  using Tick_cases [of s X cfg d W] by (auto simp: Tick_ok CollisionSame_def split: if_splits)

lemma Tick_SameSnapshot: "SameSnapshot s (fst (NotifyTick X cfg d (s, W)))"
  using Tick_cases [of s X cfg d W] by (auto simp: Tick_ok SameSnapshot_def TickRawAlpha_fields)

lemma Tick_elsewhere:
  "CapsuleComp s \<noteq> Some q \<Longrightarrow> snd (NotifyTick X cfg d (s, W)) q = W q"
  using Tick_cases [of s X cfg d W] by (auto simp: Tick_ok)

lemma End_cases:
  "(Inactive s \<and> NotifyEnd X cfg (s, W) = (s, W))
   \<or> (\<exists>p. CapsuleComp s = Some p \<and> bHasValidOriginals s)"
  by (cases "CapsuleComp s") (auto simp: Inactive_def NotifyEnd_def)

lemma End_AttrFrame: "AttrFrame cfg (W q) (snd (NotifyEnd X cfg (s, W)) q)"
  using End_cases [of s X cfg W] by (auto simp: End_ok AttrFrame_def)

lemma Begin_cases:
  "(MeshComp = None \<or> (\<exists>m. MeshComp = Some m \<and> FindCapsuleComponent X m = None))
   \<or> (\<exists>m p. MeshComp = Some m \<and> FindCapsuleComponent X m = Some p)"
  by (cases MeshComp) auto

lemma Begin_AttrFrame: "AttrFrame cfg (W q) (snd (NotifyBegin X cfg MeshComp T (s, W)) q)"
  using Begin_cases [of MeshComp X]
  by (auto simp: NotifyBegin_fail Begin_ok Save_ok Apply_ok AttrFrame_def)

lemma AttrFrame_refl: "AttrFrame cfg c c"
  by (simp add: AttrFrame_def)

lemma AttrFrame_trans: "AttrFrame cfg c c' \<Longrightarrow> AttrFrame cfg c' c'' \<Longrightarrow> AttrFrame cfg c c''"
  by (simp add: AttrFrame_def)

lemma Step_AttrFrame: "AttrFrame cfg (snd sw q) (snd (Step X cfg c sw) q)"
  by (cases sw; cases c) (simp_all add: Begin_AttrFrame Tick_AttrFrame End_AttrFrame)

lemma Run_AttrFrame: "AttrFrame cfg (snd sw q) (snd (Run X cfg cs sw) q)"
proof (induction cs arbitrary: sw)
  case Nil
  show ?case by (simp add: AttrFrame_refl)
next
  case (Cons c cs)
  have "AttrFrame cfg (snd sw q) (snd (Step X cfg c sw) q)" by (rule Step_AttrFrame)
  moreover have "AttrFrame cfg (snd (Step X cfg c sw) q) (snd (Run X cfg cs (Step X cfg c sw)) q)"
    by (rule Cons.IH)
  ultimately show ?case by (auto intro: AttrFrame_trans)
qed

section \<open>Attributes that are not modified\<close>

text \<open>
  Claim C2. For every attribute whose modify flag is false, no callback writes that
  attribute on any component: after any sequence of \<^verbatim>\<open>NotifyBegin\<close>, \<^verbatim>\<open>NotifyTick\<close> and
  \<^verbatim>\<open>NotifyEnd\<close> calls (so at every point of a lifecycle, and after its end) the value
  read from a component is the value read before the first call.
\<close>

theorem unmodified_attributes_never_written:
  "(\<not> bModifyRadius cfg \<longrightarrow>
      CapsuleRadius (snd (Run X cfg calls (s, W)) q) = CapsuleRadius (W q))
   \<and> (\<not> bModifyHalfHeight cfg \<longrightarrow>
      CapsuleHalfHeight (snd (Run X cfg calls (s, W)) q) = CapsuleHalfHeight (W q))
   \<and> (\<not> bModifyScale cfg \<longrightarrow>
      RelativeScale3D (snd (Run X cfg calls (s, W)) q) = RelativeScale3D (W q))
   \<and> (\<not> bModifyLineThickness cfg \<longrightarrow>
      LineThickness (snd (Run X cfg calls (s, W)) q) = LineThickness (W q))
   \<and> (\<not> bModifyShapeColor cfg \<longrightarrow>
      ShapeColor (snd (Run X cfg calls (s, W)) q) = ShapeColor (W q))"
  using Run_AttrFrame [of cfg "(s, W)" q X calls] by (simp add: AttrFrame_def)

theorem unmodified_attributes_never_written_witness:
  "CapsuleHalfHeight (snd (Run ExampleExternals ScenarioConfig
       [CallBegin (Some 0) 2, CallTick (1 / 4), CallTick (3 / 4), CallEnd]
       (FreshSession, ExampleWorld)) 7) = CapsuleHalfHeight (ExampleWorld 7)
   \<and> RelativeScale3D (snd (Run ExampleExternals ScenarioConfig
       [CallBegin (Some 0) 2, CallTick (1 / 4), CallTick (3 / 4), CallEnd]
       (FreshSession, ExampleWorld)) 7) = RelativeScale3D (ExampleWorld 7)
   \<and> LineThickness (snd (Run ExampleExternals ScenarioConfig
       [CallBegin (Some 0) 2, CallTick (1 / 4), CallTick (3 / 4), CallEnd]
       (FreshSession, ExampleWorld)) 7) = LineThickness (ExampleWorld 7)
   \<and> ShapeColor (snd (Run ExampleExternals ScenarioConfig
       [CallBegin (Some 0) 2, CallTick (1 / 4), CallTick (3 / 4), CallEnd]
       (FreshSession, ExampleWorld)) 7) = ShapeColor (ExampleWorld 7)"
  using unmodified_attributes_never_written [of ScenarioConfig ExampleExternals
      "[CallBegin (Some 0) 2, CallTick (1 / 4), CallTick (3 / 4), CallEnd]"
      FreshSession ExampleWorld 7]
  by (simp add: ScenarioConfig_def)

section \<open>The inactive session\<close>

lemma Run_inert:
  "Inactive s \<Longrightarrow> \<forall>m T. CallBegin m T \<notin> set calls \<Longrightarrow> Run X cfg calls (s, W) = (s, W)"
proof (induction calls)
  case Nil
  show ?case by simp
next
  case (Cons c calls)
  then have "Step X cfg c (s, W) = (s, W)"
    by (cases c) (auto simp: Inactive_Tick Inactive_End)
  with Cons show ?case by simp
qed

text \<open>
  Claim C3. When \<^verbatim>\<open>NotifyBegin\<close> is called with a null mesh component, or the capsule
  locator finds no component, the session is inactive afterwards and no component has
  changed. Whenever the session is inactive (also after every \<^verbatim>\<open>NotifyEnd\<close>),
  \<^verbatim>\<open>NotifyTick\<close> and \<^verbatim>\<open>NotifyEnd\<close> change neither the session nor any component, and so
  does every sequence of such calls, until the next \<^verbatim>\<open>NotifyBegin\<close>.
\<close>

theorem inactive_session_is_inert:
  "((MeshComp = None \<or> (\<exists>m. MeshComp = Some m \<and> FindCapsuleComponent X m = None)) \<longrightarrow>
      Inactive (fst (NotifyBegin X cfg MeshComp T (s, W)))
      \<and> snd (NotifyBegin X cfg MeshComp T (s, W)) = W)
   \<and> (Inactive s \<longrightarrow>
        NotifyTick X cfg d (s, W) = (s, W) \<and> NotifyEnd X cfg (s, W) = (s, W))
   \<and> Inactive (fst (NotifyEnd X cfg (s, W)))
   \<and> (Inactive s \<and> (\<forall>m T'. CallBegin m T' \<notin> set calls) \<longrightarrow>
        Run X cfg calls (s, W) = (s, W))"
proof -
  have "MeshComp = None \<or> (\<exists>m. MeshComp = Some m \<and> FindCapsuleComponent X m = None) \<Longrightarrow>
      Inactive (fst (NotifyBegin X cfg MeshComp T (s, W)))
      \<and> snd (NotifyBegin X cfg MeshComp T (s, W)) = W"
    by (simp add: NotifyBegin_fail Inactive_def)
  then show ?thesis
    using Inactive_Tick [of s X cfg d W] Inactive_End [of s X cfg W]
      End_Inactive [of X cfg s W] Run_inert [of s calls X cfg W]
    by blast
qed

theorem inactive_session_is_inert_witness:
  "Inactive (fst (NotifyBegin ExampleExternals ScenarioConfig (Some 1) 2
       (FreshSession, ExampleWorld)))
   \<and> snd (NotifyBegin ExampleExternals ScenarioConfig (Some 1) 2
       (FreshSession, ExampleWorld)) = ExampleWorld
   \<and> NotifyTick ExampleExternals ScenarioConfig (1 / 4) (FreshSession, ExampleWorld)
       = (FreshSession, ExampleWorld)
   \<and> NotifyEnd ExampleExternals ScenarioConfig (FreshSession, ExampleWorld)
       = (FreshSession, ExampleWorld)
   \<and> Run ExampleExternals ScenarioConfig [CallTick (1 / 4), CallEnd, CallTick 1]
       (FreshSession, ExampleWorld) = (FreshSession, ExampleWorld)"
proof -
  have h1: "FindCapsuleComponent ExampleExternals 1 = None"
    by (simp add: ExampleExternals_def)
  have h2: "Inactive FreshSession"
    by (simp add: FreshSession_def Inactive_def)
  have h3: "\<forall>m T'. CallBegin m T' \<notin> set [CallTick (1 / 4), CallEnd, CallTick 1]"
    by simp
  show ?thesis
    using inactive_session_is_inert [of "Some 1" ExampleExternals ScenarioConfig 2
      FreshSession ExampleWorld "1 / 4" "[CallTick (1 / 4), CallEnd, CallTick 1]"] h1 h2 h3
    by blast
qed

section \<open>The phases of a tick\<close>

lemma Clamp_unit [simp]: "Clamp 1 0 1 = 1"
  by (simp add: Clamp_def)

text \<open>
  Claim C9. The phase conditions are tried in order and the first match wins: on a tick
  whose elapsed time (after the frame delta is added) equals the total duration minus
  the blend-out time, and is at least the blend-in time, the hold branch is taken. The
  raw alpha is 1 and the blend-out evaluator is not advanced.
\<close>

theorem hold_branch_wins_at_boundary:
  assumes "ElapsedTime s + d = NotifyTotalDuration s - BlendTimeOut cfg"
    and "BlendTimeIn cfg \<le> ElapsedTime s + d"
  shows "fst (TickRawAlpha cfg d s) = 1
    \<and> BlendOutAlpha (snd (TickRawAlpha cfg d s)) = BlendOutAlpha s
    \<and> BlendOutAlpha (fst (NotifyTick X cfg d (s, W))) = BlendOutAlpha s"
proof -
  have a: "TickRawAlpha cfg d s = (1, s\<lparr>ElapsedTime := ElapsedTime s + d\<rparr>)"
    using assms by (simp add: TickRawAlpha_def Let_def)
  have "BlendOutAlpha (fst (NotifyTick X cfg d (s, W))) = BlendOutAlpha s"
    using Tick_cases [of s X cfg d W] by (auto simp: Tick_ok a)
  with a show ?thesis by simp
qed

theorem hold_branch_wins_at_boundary_witness:
  "fst (TickRawAlpha ScenarioConfig (1 / 2)
      (FreshSession\<lparr>ElapsedTime := 1, NotifyTotalDuration := 2\<rparr>)) = 1
   \<and> BlendOutAlpha (snd (TickRawAlpha ScenarioConfig (1 / 2)
      (FreshSession\<lparr>ElapsedTime := 1, NotifyTotalDuration := 2\<rparr>)))
     = BlendOutAlpha (FreshSession\<lparr>ElapsedTime := 1, NotifyTotalDuration := 2\<rparr>)
   \<and> BlendOutAlpha (fst (NotifyTick ExampleExternals ScenarioConfig (1 / 2)
      (FreshSession\<lparr>ElapsedTime := 1, NotifyTotalDuration := 2\<rparr>, ExampleWorld)))
     = BlendOutAlpha (FreshSession\<lparr>ElapsedTime := 1, NotifyTotalDuration := 2\<rparr>)"
proof -
  have h1: "ElapsedTime (FreshSession\<lparr>ElapsedTime := 1, NotifyTotalDuration := 2\<rparr>) + 1 / 2
      = NotifyTotalDuration (FreshSession\<lparr>ElapsedTime := 1, NotifyTotalDuration := 2\<rparr>)
        - BlendTimeOut ScenarioConfig"
    by (simp add: ScenarioConfig_def)
  have h2: "BlendTimeIn ScenarioConfig
      \<le> ElapsedTime (FreshSession\<lparr>ElapsedTime := 1, NotifyTotalDuration := 2\<rparr>) + 1 / 2"
    by (simp add: ScenarioConfig_def)
  show ?thesis
    using hold_branch_wins_at_boundary [OF h1 h2, of ExampleExternals ExampleWorld] .
qed

section \<open>What NotifyBegin writes\<close>

text \<open>
  Claim C4. When the blend-in time is at most \<^verbatim>\<open>KINDA_SMALL_NUMBER\<close> and a component is
  found, then right after \<^verbatim>\<open>NotifyBegin\<close>, before any tick, every attribute whose modify
  flag is set holds its resolved target value on the component (the shape colour as the
  conversion of the resolved target colour), and that resolved target is the configured
  value.
\<close>

theorem instant_blend_in_snaps_at_Begin:
  assumes "FindCapsuleComponent X m = Some p"
    and "BlendTimeIn cfg \<le> KINDA_SMALL_NUMBER"
  shows "(bModifyRadius cfg \<longrightarrow>
        CapsuleRadius (snd (NotifyBegin X cfg (Some m) T (s, W)) p)
          = TargetRadius (fst (NotifyBegin X cfg (Some m) T (s, W)))
        \<and> TargetRadius (fst (NotifyBegin X cfg (Some m) T (s, W))) = NewRadius cfg)
    \<and> (bModifyHalfHeight cfg \<longrightarrow>
        CapsuleHalfHeight (snd (NotifyBegin X cfg (Some m) T (s, W)) p)
          = TargetHalfHeight (fst (NotifyBegin X cfg (Some m) T (s, W)))
        \<and> TargetHalfHeight (fst (NotifyBegin X cfg (Some m) T (s, W))) = NewHalfHeight cfg)
    \<and> (bModifyScale cfg \<longrightarrow>
        RelativeScale3D (snd (NotifyBegin X cfg (Some m) T (s, W)) p)
          = TargetScale (fst (NotifyBegin X cfg (Some m) T (s, W)))
        \<and> TargetScale (fst (NotifyBegin X cfg (Some m) T (s, W))) = NewScale cfg)
    \<and> (bModifyLineThickness cfg \<longrightarrow>
        LineThickness (snd (NotifyBegin X cfg (Some m) T (s, W)) p)
          = TargetLineThickness (fst (NotifyBegin X cfg (Some m) T (s, W)))
        \<and> TargetLineThickness (fst (NotifyBegin X cfg (Some m) T (s, W)))
          = NewLineThickness cfg)
    \<and> (bModifyShapeColor cfg \<longrightarrow>
        ShapeColor (snd (NotifyBegin X cfg (Some m) T (s, W)) p)
          = ToFColor X (TargetShapeColor (fst (NotifyBegin X cfg (Some m) T (s, W))))
        \<and> TargetShapeColor (fst (NotifyBegin X cfg (Some m) T (s, W)))
          = NewShapeColor cfg)"
  using assms by (simp add: Begin_ok Save_ok Apply_ok)

theorem instant_blend_in_snaps_at_Begin_witness:
  "CapsuleRadius (snd (NotifyBegin ExampleExternals InstantConfig (Some 0) 2
       (FreshSession, ExampleWorld)) 7) = 50
   \<and> CapsuleHalfHeight (snd (NotifyBegin ExampleExternals InstantConfig (Some 0) 2
       (FreshSession, ExampleWorld)) 7) = 60
   \<and> LineThickness (snd (NotifyBegin ExampleExternals InstantConfig (Some 0) 2
       (FreshSession, ExampleWorld)) 7) = 5"
proof -
  have h1: "FindCapsuleComponent ExampleExternals 0 = Some 7"
    by (simp add: ExampleExternals_def)
  have h2: "BlendTimeIn InstantConfig \<le> KINDA_SMALL_NUMBER"
    by (simp add: InstantConfig_def KINDA_SMALL_NUMBER_def)
  have h3: "bModifyRadius InstantConfig \<and> bModifyHalfHeight InstantConfig
      \<and> bModifyLineThickness InstantConfig"
    "NewRadius InstantConfig = 50 \<and> NewHalfHeight InstantConfig = 60
      \<and> NewLineThickness InstantConfig = 5"
    by (simp_all add: InstantConfig_def ScenarioConfig_def)
  show ?thesis
    using instant_blend_in_snaps_at_Begin [OF h1 h2, of 2 FreshSession ExampleWorld] h3
    by simp
qed

section \<open>A whole lifecycle\<close>

lemma SameSnapshot_refl: "SameSnapshot s s"
  by (simp add: SameSnapshot_def)

lemma SameSnapshot_trans: "SameSnapshot s s' \<Longrightarrow> SameSnapshot s' s'' \<Longrightarrow> SameSnapshot s s''"
  by (simp add: SameSnapshot_def)

lemma CollisionSame_refl: "CollisionSame c c"
  by (simp add: CollisionSame_def)

lemma CollisionSame_trans: "CollisionSame c c' \<Longrightarrow> CollisionSame c' c'' \<Longrightarrow> CollisionSame c c''"
  by (simp add: CollisionSame_def)

lemma Ticks_SameSnapshot: "SameSnapshot (fst sw) (fst (Ticks X cfg ds sw))"
proof (induction ds arbitrary: sw)
  case Nil
  show ?case by (simp add: SameSnapshot_refl)
next
  case (Cons d ds)
  have "SameSnapshot (fst sw) (fst (NotifyTick X cfg d sw))"
    using Tick_SameSnapshot [of "fst sw" X cfg d "snd sw"] by simp
  then show ?case
    using Cons.IH [of "NotifyTick X cfg d sw"] by (auto intro: SameSnapshot_trans)
qed

lemma Ticks_CollisionSame: "CollisionSame (snd sw q) (snd (Ticks X cfg ds sw) q)"
proof (induction ds arbitrary: sw)
  case Nil
  show ?case by (simp add: CollisionSame_refl)
next
  case (Cons d ds)
  have "CollisionSame (snd sw q) (snd (NotifyTick X cfg d sw) q)"
    using Tick_CollisionSame [of "snd sw" q X cfg d "fst sw"] by simp
  then show ?case
    using Cons.IH [of "NotifyTick X cfg d sw"] by (auto intro: CollisionSame_trans)
qed

lemma Ticks_AttrFrame: "AttrFrame cfg (snd sw q) (snd (Ticks X cfg ds sw) q)"
proof (induction ds arbitrary: sw)
  case Nil
  show ?case by (simp add: AttrFrame_refl)
next
  case (Cons d ds)
  have "AttrFrame cfg (snd sw q) (snd (NotifyTick X cfg d sw) q)"
    using Tick_AttrFrame [of cfg "snd sw" q X d "fst sw"] by simp
  then show ?case
    using Cons.IH [of "NotifyTick X cfg d sw"] by (auto intro: AttrFrame_trans)
qed

text \<open>The session and the component right after a successful \<^verbatim>\<open>NotifyBegin\<close>.\<close>

lemma Begin_session:
  assumes "FindCapsuleComponent X m = Some p"
  shows "CapsuleComp (fst (NotifyBegin X cfg (Some m) T (s, W))) = Some p"
    and "bHasValidOriginals (fst (NotifyBegin X cfg (Some m) T (s, W)))"
    and "ElapsedTime (fst (NotifyBegin X cfg (Some m) T (s, W))) = 0"
    and "NotifyTotalDuration (fst (NotifyBegin X cfg (Some m) T (s, W))) = T"
    and "OriginalRadius (fst (NotifyBegin X cfg (Some m) T (s, W))) = CapsuleRadius (W p)"
    and "OriginalHalfHeight (fst (NotifyBegin X cfg (Some m) T (s, W)))
          = CapsuleHalfHeight (W p)"
    and "OriginalScale (fst (NotifyBegin X cfg (Some m) T (s, W))) = RelativeScale3D (W p)"
    and "OriginalLineThickness (fst (NotifyBegin X cfg (Some m) T (s, W)))
          = OriginalLineThickness s"
    and "OriginalShapeColor (fst (NotifyBegin X cfg (Some m) T (s, W)))
          = ReinterpretAsLinear X (ShapeColor (W p))"
    and "TargetRadius (fst (NotifyBegin X cfg (Some m) T (s, W)))
          = (if bModifyRadius cfg then NewRadius cfg else CapsuleRadius (W p))"
    and "TargetHalfHeight (fst (NotifyBegin X cfg (Some m) T (s, W)))
          = (if bModifyHalfHeight cfg then NewHalfHeight cfg else CapsuleHalfHeight (W p))"
    and "TargetScale (fst (NotifyBegin X cfg (Some m) T (s, W)))
          = (if bModifyScale cfg then NewScale cfg else RelativeScale3D (W p))"
    and "TargetLineThickness (fst (NotifyBegin X cfg (Some m) T (s, W)))
          = (if bModifyLineThickness cfg then NewLineThickness cfg
             else OriginalLineThickness s)"
    and "TargetShapeColor (fst (NotifyBegin X cfg (Some m) T (s, W)))
          = (if bModifyShapeColor cfg then NewShapeColor cfg
             else ReinterpretAsLinear X (ShapeColor (W p)))"
    and "BlendInAlpha (fst (NotifyBegin X cfg (Some m) T (s, W)))
          = MakeAlphaBlend
              (if BlendTimeIn cfg > KINDA_SMALL_NUMBER then BlendTimeIn cfg else 0)
              (BlendOptionIn cfg)"
    and "BlendOutAlpha (fst (NotifyBegin X cfg (Some m) T (s, W)))
          = MakeAlphaBlend
              (if BlendTimeOut cfg > KINDA_SMALL_NUMBER then BlendTimeOut cfg else 0)
              (BlendOptionOut cfg)"
  using assms by (simp_all add: Begin_ok Save_ok Apply_ok)

lemma Begin_snapshot:
  assumes "FindCapsuleComponent X m = Some p"
  shows "OriginalCapsuleSettings (fst (NotifyBegin X cfg (Some m) T (s, W))) =
     \<lparr>CollisionEnabled = BodyCollisionEnabled (W p), bForceQueryOnly = False,
      bOverrideCollisionEnabled = True,
      CollisionProfileName = BodyCollisionProfileName (W p),
      bOverrideCollisionProfileName = True,
      bGenerateOverlapEvents = bBodyGenerateOverlapEvents (W p),
      bOverrideGenerateOverlapEvents = True,
      CustomResponses = map (\<lambda>Chan. (Chan, ResponseToChannels (W p) Chan)) [0 ..< ECC_MAX X],
      bOverrideCustomResponses = True\<rparr>"
  using assms by (simp add: Begin_ok Save_ok Apply_ok)

lemma Begin_collision:
  assumes "FindCapsuleComponent X m = Some p"
  shows "CollisionSame (snd (ApplyCollisionSettings cfg (s\<lparr>CapsuleComp := Some p\<rparr>, W)) p)
           (snd (NotifyBegin X cfg (Some m) T (s, W)) p)"
  using assms by (simp add: Begin_ok Save_ok Apply_ok CollisionSame_def)

lemma Begin_elsewhere:
  assumes "FindCapsuleComponent X m = Some p" and "q \<noteq> p"
  shows "snd (NotifyBegin X cfg (Some m) T (s, W)) q = W q"
  using assms by (simp add: Begin_ok Save_ok Apply_ok)


text \<open>What a whole lifecycle leaves on the component.\<close>

lemma Lifecycle_End:
  assumes f: "FindCapsuleComponent X m = Some p"
  shows "CapsuleRadius (snd (NotifyEnd X cfg (Ticks X cfg ds
            (NotifyBegin X cfg (Some m) T (s, W)))) p) = CapsuleRadius (W p)"
    and "CapsuleHalfHeight (snd (NotifyEnd X cfg (Ticks X cfg ds
            (NotifyBegin X cfg (Some m) T (s, W)))) p) = CapsuleHalfHeight (W p)"
    and "RelativeScale3D (snd (NotifyEnd X cfg (Ticks X cfg ds
            (NotifyBegin X cfg (Some m) T (s, W)))) p) = RelativeScale3D (W p)"
    and "LineThickness (snd (NotifyEnd X cfg (Ticks X cfg ds
            (NotifyBegin X cfg (Some m) T (s, W)))) p)
          = (if bModifyLineThickness cfg then OriginalLineThickness s
             else LineThickness (W p))"
    and "ShapeColor (snd (NotifyEnd X cfg (Ticks X cfg ds
            (NotifyBegin X cfg (Some m) T (s, W)))) p)
          = (if bModifyShapeColor cfg
             then ToFColor X (ReinterpretAsLinear X (ShapeColor (W p)))
             else ShapeColor (W p))"
    and "BodyCollisionEnabled (snd (NotifyEnd X cfg (Ticks X cfg ds
            (NotifyBegin X cfg (Some m) T (s, W)))) p) = BodyCollisionEnabled (W p)"
    and "BodyCollisionProfileName (snd (NotifyEnd X cfg (Ticks X cfg ds
            (NotifyBegin X cfg (Some m) T (s, W)))) p) = BodyCollisionProfileName (W p)"
    and "bBodyGenerateOverlapEvents (snd (NotifyEnd X cfg (Ticks X cfg ds
            (NotifyBegin X cfg (Some m) T (s, W)))) p) = bBodyGenerateOverlapEvents (W p)"
    and "Chan < ECC_MAX X \<Longrightarrow>
         ResponseToChannels (snd (NotifyEnd X cfg (Ticks X cfg ds
            (NotifyBegin X cfg (Some m) T (s, W)))) p) Chan = ResponseToChannels (W p) Chan"
proof -
  let ?B = "NotifyBegin X cfg (Some m) T (s, W)"
  let ?K = "Ticks X cfg ds ?B"
  have snap: "SameSnapshot (fst ?B) (fst ?K)"
    by (rule Ticks_SameSnapshot)
  have act: "CapsuleComp (fst ?K) = Some p" "bHasValidOriginals (fst ?K)"
    using snap Begin_session(1,2) [OF f, of cfg T s W] by (simp_all add: SameSnapshot_def)
  have orig: "OriginalRadius (fst ?K) = CapsuleRadius (W p)"
    "OriginalHalfHeight (fst ?K) = CapsuleHalfHeight (W p)"
    "OriginalScale (fst ?K) = RelativeScale3D (W p)"
    "OriginalLineThickness (fst ?K) = OriginalLineThickness s"
    "OriginalShapeColor (fst ?K) = ReinterpretAsLinear X (ShapeColor (W p))"
    using snap Begin_session(5-9) [OF f, of cfg T s W] by (simp_all add: SameSnapshot_def)
  have saved: "OriginalCapsuleSettings (fst ?K) = OriginalCapsuleSettings (fst ?B)"
    using snap by (simp add: SameSnapshot_def)
  have "AttrFrame cfg (W p) (snd ?B p)"
    by (rule Begin_AttrFrame)
  moreover have "AttrFrame cfg (snd ?B p) (snd ?K p)"
    by (rule Ticks_AttrFrame)
  ultimately have fr: "AttrFrame cfg (W p) (snd ?K p)"
    by (rule AttrFrame_trans)
  have E: "NotifyEnd X cfg ?K = NotifyEnd X cfg (fst ?K, snd ?K)"
    by simp
  note End = End_ok [OF act, of X cfg "snd ?K"]
  show "CapsuleRadius (snd (NotifyEnd X cfg ?K) p) = CapsuleRadius (W p)"
    using fr by (simp add: E End orig AttrFrame_def del: prod.collapse)
  show "CapsuleHalfHeight (snd (NotifyEnd X cfg ?K) p) = CapsuleHalfHeight (W p)"
    using fr by (simp add: E End orig AttrFrame_def del: prod.collapse)
  show "RelativeScale3D (snd (NotifyEnd X cfg ?K) p) = RelativeScale3D (W p)"
    using fr by (simp add: E End orig AttrFrame_def del: prod.collapse)
  show "LineThickness (snd (NotifyEnd X cfg ?K) p)
          = (if bModifyLineThickness cfg then OriginalLineThickness s
             else LineThickness (W p))"
    using fr by (simp add: E End orig AttrFrame_def del: prod.collapse)
  show "ShapeColor (snd (NotifyEnd X cfg ?K) p)
          = (if bModifyShapeColor cfg
             then ToFColor X (ReinterpretAsLinear X (ShapeColor (W p)))
             else ShapeColor (W p))"
    using fr by (simp add: E End orig AttrFrame_def del: prod.collapse)
  show "BodyCollisionEnabled (snd (NotifyEnd X cfg ?K) p) = BodyCollisionEnabled (W p)"
    by (simp add: E End saved Begin_snapshot [OF f] del: prod.collapse)
  show "BodyCollisionProfileName (snd (NotifyEnd X cfg ?K) p) = BodyCollisionProfileName (W p)"
    by (simp add: E End saved Begin_snapshot [OF f] del: prod.collapse)
  show "bBodyGenerateOverlapEvents (snd (NotifyEnd X cfg ?K) p)
          = bBodyGenerateOverlapEvents (W p)"
    by (simp add: E End saved Begin_snapshot [OF f] del: prod.collapse)
  show "ResponseToChannels (snd (NotifyEnd X cfg ?K) p) Chan = ResponseToChannels (W p) Chan"
    if "Chan < ECC_MAX X"
    using that
    by (simp add: E End saved Begin_snapshot [OF f] WriteAll_saved del: prod.collapse)
qed

section \<open>Collision settings\<close>

text \<open>
  Claim C10. After every \<^verbatim>\<open>NotifyBegin\<close> that finds a component, whatever the blend-in
  time and whatever the five modify flags, the collision snapshot has been taken: it
  holds the component's enabled mode, profile name, overlap flag and the response of
  every channel below \<^verbatim>\<open>ECC_MAX\<close>, as read from the component before the call. The
  configured overrides have been applied as well: on the component, the enabled mode is
  query-only or the configured mode when its override flag is set, the profile name and
  the overlap flag are the configured ones when their flags are set, the response table
  is the old table with the configured pairs written over it in order when its flag is
  set, and a sub-field whose flag is unset has the value from before the call. These
  are the sub-fields that \<^verbatim>\<open>ApplyCollisionSettings\<close> produces from the component before
  the call. No tick is involved.
\<close>

theorem collision_snapshot_and_overrides_at_Begin:
  assumes "FindCapsuleComponent X m = Some p"
  shows "OriginalCapsuleSettings (fst (NotifyBegin X cfg (Some m) T (s, W)))
      = OriginalCapsuleSettings
          (fst (SaveOriginalCollisionSettings X (s\<lparr>CapsuleComp := Some p\<rparr>, W)))
    \<and> CollisionEnabled (OriginalCapsuleSettings (fst (NotifyBegin X cfg (Some m) T (s, W))))
      = BodyCollisionEnabled (W p)
    \<and> CollisionProfileName
        (OriginalCapsuleSettings (fst (NotifyBegin X cfg (Some m) T (s, W))))
      = BodyCollisionProfileName (W p)
    \<and> bGenerateOverlapEvents
        (OriginalCapsuleSettings (fst (NotifyBegin X cfg (Some m) T (s, W))))
      = bBodyGenerateOverlapEvents (W p)
    \<and> CustomResponses (OriginalCapsuleSettings (fst (NotifyBegin X cfg (Some m) T (s, W))))
      = map (\<lambda>Chan. (Chan, ResponseToChannels (W p) Chan)) [0 ..< ECC_MAX X]
    \<and> CollisionSame
        (snd (ApplyCollisionSettings cfg (s\<lparr>CapsuleComp := Some p\<rparr>, W)) p)
        (snd (NotifyBegin X cfg (Some m) T (s, W)) p)
    \<and> BodyCollisionEnabled (snd (NotifyBegin X cfg (Some m) T (s, W)) p)
      = (if bOverrideCollisionEnabled (CapsuleCollisionSettings cfg)
         then (if bForceQueryOnly (CapsuleCollisionSettings cfg) then QueryOnly
               else CollisionEnabled (CapsuleCollisionSettings cfg))
         else BodyCollisionEnabled (W p))
    \<and> BodyCollisionProfileName (snd (NotifyBegin X cfg (Some m) T (s, W)) p)
      = (if bOverrideCollisionProfileName (CapsuleCollisionSettings cfg)
         then CollisionProfileName (CapsuleCollisionSettings cfg)
         else BodyCollisionProfileName (W p))
    \<and> bBodyGenerateOverlapEvents (snd (NotifyBegin X cfg (Some m) T (s, W)) p)
      = (if bOverrideGenerateOverlapEvents (CapsuleCollisionSettings cfg)
         then bGenerateOverlapEvents (CapsuleCollisionSettings cfg)
         else bBodyGenerateOverlapEvents (W p))
    \<and> ResponseToChannels (snd (NotifyBegin X cfg (Some m) T (s, W)) p)
      = (if bOverrideCustomResponses (CapsuleCollisionSettings cfg)
         then foldl (\<lambda>table (Key, Value). table(Key := Value))
                (ResponseToChannels (W p)) (CustomResponses (CapsuleCollisionSettings cfg))
         else ResponseToChannels (W p))"
proof -
  let ?B = "NotifyBegin X cfg (Some m) T (s, W)"
  have snapshot: "OriginalCapsuleSettings (fst ?B)
      = OriginalCapsuleSettings
          (fst (SaveOriginalCollisionSettings X (s\<lparr>CapsuleComp := Some p\<rparr>, W)))"
    by (simp add: Begin_snapshot [OF assms] Save_ok)
  have same: "CollisionSame
      (snd (ApplyCollisionSettings cfg (s\<lparr>CapsuleComp := Some p\<rparr>, W)) p) (snd ?B p)"
    by (rule Begin_collision [OF assms])
  have mode: "BodyCollisionEnabled (snd ?B p)
      = (if bOverrideCollisionEnabled (CapsuleCollisionSettings cfg)
         then (if bForceQueryOnly (CapsuleCollisionSettings cfg) then QueryOnly
               else CollisionEnabled (CapsuleCollisionSettings cfg))
         else BodyCollisionEnabled (W p))"
    using assms by (simp add: Begin_ok Save_ok Apply_ok)
  have profile: "BodyCollisionProfileName (snd ?B p)
      = (if bOverrideCollisionProfileName (CapsuleCollisionSettings cfg)
         then CollisionProfileName (CapsuleCollisionSettings cfg)
         else BodyCollisionProfileName (W p))"
    using assms by (simp add: Begin_ok Save_ok Apply_ok)
  have overlap: "bBodyGenerateOverlapEvents (snd ?B p)
      = (if bOverrideGenerateOverlapEvents (CapsuleCollisionSettings cfg)
         then bGenerateOverlapEvents (CapsuleCollisionSettings cfg)
         else bBodyGenerateOverlapEvents (W p))"
    using assms by (simp add: Begin_ok Save_ok Apply_ok)
  have table: "ResponseToChannels (snd ?B p)
      = (if bOverrideCustomResponses (CapsuleCollisionSettings cfg)
         then foldl (\<lambda>table (Key, Value). table(Key := Value))
                (ResponseToChannels (W p)) (CustomResponses (CapsuleCollisionSettings cfg))
         else ResponseToChannels (W p))"
    using assms by (simp add: Begin_ok Save_ok Apply_ok WriteAll_def)
  have saved: "CollisionEnabled (OriginalCapsuleSettings (fst ?B)) = BodyCollisionEnabled (W p)"
    "CollisionProfileName (OriginalCapsuleSettings (fst ?B)) = BodyCollisionProfileName (W p)"
    "bGenerateOverlapEvents (OriginalCapsuleSettings (fst ?B))
      = bBodyGenerateOverlapEvents (W p)"
    "CustomResponses (OriginalCapsuleSettings (fst ?B))
      = map (\<lambda>Chan. (Chan, ResponseToChannels (W p) Chan)) [0 ..< ECC_MAX X]"
    by (simp_all add: Begin_snapshot [OF assms])
  show ?thesis
    by (intro conjI snapshot saved same mode profile overlap table)
qed

theorem collision_snapshot_and_overrides_at_Begin_witness:
  "CollisionEnabled (OriginalCapsuleSettings
      (fst (NotifyBegin ExampleExternals ScenarioConfig (Some 0) 2
         (FreshSession, ExampleWorld)))) = QueryAndPhysics
   \<and> BodyCollisionEnabled (snd (NotifyBegin ExampleExternals ScenarioConfig (Some 0) 2
        (FreshSession, ExampleWorld)) 7) = QueryOnly
   \<and> BodyCollisionProfileName (snd (NotifyBegin ExampleExternals ScenarioConfig (Some 0) 2
        (FreshSession, ExampleWorld)) 7) = ''Pawn''
   \<and> bBodyGenerateOverlapEvents (snd (NotifyBegin ExampleExternals ScenarioConfig (Some 0) 2
        (FreshSession, ExampleWorld)) 7) = False
   \<and> ResponseToChannels (snd (NotifyBegin ExampleExternals ScenarioConfig (Some 0) 2
        (FreshSession, ExampleWorld)) 7) 1 = ECR_Ignore
   \<and> ResponseToChannels (snd (NotifyBegin ExampleExternals ScenarioConfig (Some 0) 2
        (FreshSession, ExampleWorld)) 7) 0 = ECR_Block"
proof -
  have h: "FindCapsuleComponent ExampleExternals 0 = Some 7"
    by (simp add: ExampleExternals_def)
  have c: "bOverrideCollisionEnabled (CapsuleCollisionSettings ScenarioConfig)"
    "bForceQueryOnly (CapsuleCollisionSettings ScenarioConfig)"
    "\<not> bOverrideCollisionProfileName (CapsuleCollisionSettings ScenarioConfig)"
    "bOverrideGenerateOverlapEvents (CapsuleCollisionSettings ScenarioConfig)"
    "\<not> bGenerateOverlapEvents (CapsuleCollisionSettings ScenarioConfig)"
    "bOverrideCustomResponses (CapsuleCollisionSettings ScenarioConfig)"
    "CustomResponses (CapsuleCollisionSettings ScenarioConfig) = [(1, ECR_Ignore)]"
    by (simp_all add: ScenarioConfig_def ExampleCollision_def)
  have w: "BodyCollisionEnabled (ExampleWorld 7) = QueryAndPhysics"
    "BodyCollisionProfileName (ExampleWorld 7) = ''Pawn''"
    "ResponseToChannels (ExampleWorld 7) = (\<lambda>Chan. ECR_Block)"
    by (simp_all add: ExampleWorld_def ExampleCapsule_def)
  show ?thesis
    using collision_snapshot_and_overrides_at_Begin
      [OF h, of ScenarioConfig 2 FreshSession ExampleWorld, THEN conjunct2] c w
    by simp
qed



section \<open>Restoration of the attributes\<close>

text \<open>
  Claim C1 says that \<^verbatim>\<open>NotifyBegin\<close> captures the component's current value of all five
  attributes and that \<^verbatim>\<open>NotifyEnd\<close> brings every modified attribute back to it. The
  code captures four of them: \<^verbatim>\<open>OriginalLineThickness\<close> is never assigned, so the
  member keeps the value it had before the call, and \<^verbatim>\<open>NotifyEnd\<close> writes that value to
  the component. On a component of line thickness 2, with the line thickness modified
  and a session whose \<^verbatim>\<open>OriginalLineThickness\<close> is 0, the snapshot after
  \<^verbatim>\<open>NotifyBegin\<close> is 0 and the line thickness after \<^verbatim>\<open>NotifyEnd\<close> is 0, not 2.
\<close>

theorem line_thickness_not_restored:
  "LineThickness (ExampleWorld 7) = 2
   \<and> bModifyLineThickness InstantConfig
   \<and> OriginalLineThickness (fst (NotifyBegin ExampleExternals InstantConfig (Some 0) 2
        (FreshSession, ExampleWorld))) = 0
   \<and> LineThickness (snd (NotifyEnd ExampleExternals InstantConfig
        (Ticks ExampleExternals InstantConfig []
          (NotifyBegin ExampleExternals InstantConfig (Some 0) 2
            (FreshSession, ExampleWorld)))) 7) = 0"
proof -
  have h: "FindCapsuleComponent ExampleExternals 0 = Some 7"
    by (simp add: ExampleExternals_def)
  have c: "bModifyLineThickness InstantConfig"
    by (simp add: InstantConfig_def)
  have w: "LineThickness (ExampleWorld 7) = 2" "OriginalLineThickness FreshSession = 0"
    by (simp_all add: ExampleWorld_def ExampleCapsule_def FreshSession_def)
  show ?thesis
    using Lifecycle_End(4) [OF h, where cfg = InstantConfig and ds = "[]" and T = 2
        and s = FreshSession and W = ExampleWorld]
      Begin_session(8) [OF h, where cfg = InstantConfig and T = 2
        and s = FreshSession and W = ExampleWorld] c w
    by simp
qed

section \<open>The linear evaluator and the raw alpha\<close>

lemma KINDA_SMALL_NUMBER_pos: "0 < KINDA_SMALL_NUMBER"
  by (simp add: KINDA_SMALL_NUMBER_def)

lemma Clamp_id: "0 \<le> x \<Longrightarrow> x \<le> 1 \<Longrightarrow> Clamp x 0 1 = x"
  by (simp add: Clamp_def)

lemma LinearBlend_bounds:
  assumes "LinearBlend D b"
  shows "0 \<le> BlendTimeRemaining b / D" and "BlendTimeRemaining b / D \<le> 1"
  using assms by (simp_all add: LinearBlend_def)

lemma MakeAlphaBlend_linear: "0 < D \<Longrightarrow> LinearBlend D (MakeAlphaBlend D Linear)"
  by (simp add: LinearBlend_def MakeAlphaBlend_def)


lemma Update_remaining:
  assumes "LinearBlend D b" and "0 \<le> d"
  shows "BlendTimeRemaining (Update d b) = max 0 (BlendTimeRemaining b - d)"
proof (cases "AlphaLerp b \<ge> 1")
  case True
  with assms have "BlendTimeRemaining b / D \<le> 0"
    by (simp add: LinearBlend_def)
  with assms have "BlendTimeRemaining b = 0"
    by (simp add: LinearBlend_def divide_le_0_iff)
  with True assms show ?thesis
    by (simp add: Update_def)
next
  case False
  then show ?thesis
    using assms by (simp add: Update_def LinearBlend_def)
qed

lemma Update_linear:
  assumes "LinearBlend D b" and "0 \<le> d"
  shows "LinearBlend D (Update d b)"
proof (cases "AlphaLerp b \<ge> 1")
  case True
  with assms show ?thesis by (simp add: Update_def)
next
  case False
  note nc = False
  show ?thesis
  proof (cases "BlendTimeRemaining b > d")
    case True
    from assms have D: "0 < D" and R: "BlendTimeRemaining b \<le> D"
      and A: "AlphaLerp b = 1 - BlendTimeRemaining b / D"
      and O: "BlendOption b = Linear"
      by (simp_all add: LinearBlend_def)
    from True assms have Rpos: "0 < BlendTimeRemaining b" by simp
    have step: "AlphaLerp b + ((1 - AlphaLerp b) / BlendTimeRemaining b) * d
        = 1 - (BlendTimeRemaining b - d) / D"
      using Rpos D by (simp add: A field_simps)
    have lo: "0 \<le> 1 - (BlendTimeRemaining b - d) / D"
      using D R assms(2) by (simp add: field_simps)
    have hi: "1 - (BlendTimeRemaining b - d) / D \<le> 1"
      using D True by simp
    have U: "Update d b = b\<lparr>AlphaLerp := Clamp (AlphaLerp b
          + ((1 - AlphaLerp b) / BlendTimeRemaining b) * d) 0 1,
        BlendTimeRemaining := BlendTimeRemaining b - d\<rparr>"
      unfolding Update_def using nc True by simp
    have C: "Clamp (AlphaLerp b + ((1 - AlphaLerp b) / BlendTimeRemaining b) * d) 0 1
        = 1 - (BlendTimeRemaining b - d) / D"
      by (simp only: step Clamp_id [OF lo hi])
    show ?thesis
      unfolding U C using D R O assms(2) True by (simp add: LinearBlend_def)
  next
    case False
    with nc assms show ?thesis
      by (simp add: Update_def LinearBlend_def)
  qed
qed

lemma GetBlendedValue_linear:
  assumes "LinearBlend D b"
  shows "GetBlendedValue b = 1 - BlendTimeRemaining b / D"
proof -
  have "0 \<le> AlphaLerp b" "AlphaLerp b \<le> 1"
    using assms by (simp_all add: LinearBlend_def)
  then show ?thesis
    using assms by (simp add: GetBlendedValue_def LinearBlend_def Clamp_id)
qed

lemma TickRawAlpha_phase:
  assumes ok: "BlendsOk cfg s" and d: "0 \<le> d"
  shows "BlendsOk cfg (snd (TickRawAlpha cfg d s))"
    and "fst (TickRawAlpha cfg d s) = PhaseAlpha cfg (snd (TickRawAlpha cfg d s))"
proof -
  let ?e = "ElapsedTime s + d"
  let ?T = "NotifyTotalDuration s"
  consider (a) "BlendTimeIn cfg > KINDA_SMALL_NUMBER" "?e < BlendTimeIn cfg"
    | (b) "\<not> (BlendTimeIn cfg > KINDA_SMALL_NUMBER \<and> ?e < BlendTimeIn cfg)"
          "?e \<ge> BlendTimeIn cfg \<and> ?e \<le> ?T - BlendTimeOut cfg"
    | (c) "\<not> (BlendTimeIn cfg > KINDA_SMALL_NUMBER \<and> ?e < BlendTimeIn cfg)"
          "\<not> (?e \<ge> BlendTimeIn cfg \<and> ?e \<le> ?T - BlendTimeOut cfg)"
          "BlendTimeOut cfg > KINDA_SMALL_NUMBER" "?e > ?T - BlendTimeOut cfg"
    | (e) "\<not> (BlendTimeIn cfg > KINDA_SMALL_NUMBER \<and> ?e < BlendTimeIn cfg)"
          "\<not> (?e \<ge> BlendTimeIn cfg \<and> ?e \<le> ?T - BlendTimeOut cfg)"
          "\<not> (BlendTimeOut cfg > KINDA_SMALL_NUMBER \<and> ?e > ?T - BlendTimeOut cfg)"
    by blast
  then have "BlendsOk cfg (snd (TickRawAlpha cfg d s))
      \<and> fst (TickRawAlpha cfg d s) = PhaseAlpha cfg (snd (TickRawAlpha cfg d s))"
  proof cases
    case a
    then have lin: "LinearBlend (BlendTimeIn cfg) (BlendInAlpha s)"
      using ok by (simp add: BlendsOk_def BlendOk_def)
    have eq: "TickRawAlpha cfg d s =
        (Clamp (GetBlendedValue (Update d (BlendInAlpha s))) 0 1,
         s\<lparr>ElapsedTime := ?e, BlendInAlpha := Update d (BlendInAlpha s)\<rparr>)"
      by (simp add: TickRawAlpha_def Let_def a)
    note lin' = Update_linear [OF lin d]
    show ?thesis
      using a ok lin' LinearBlend_bounds [OF lin']
      by (simp add: eq BlendsOk_def BlendOk_def PhaseAlpha_def
          GetBlendedValue_linear [OF lin'] Clamp_id)
  next
    case b
    have eq: "TickRawAlpha cfg d s = (1, s\<lparr>ElapsedTime := ?e\<rparr>)"
      by (simp add: TickRawAlpha_def Let_def b)
    show ?thesis
      using ok by (simp add: eq b BlendsOk_def PhaseAlpha_def)
  next
    case c
    then have lin: "LinearBlend (BlendTimeOut cfg) (BlendOutAlpha s)"
      using ok by (simp add: BlendsOk_def BlendOk_def)
    have eq: "TickRawAlpha cfg d s =
        (Clamp (1 - GetBlendedValue (Update d (BlendOutAlpha s))) 0 1,
         s\<lparr>ElapsedTime := ?e, BlendOutAlpha := Update d (BlendOutAlpha s)\<rparr>)"
      by (simp add: TickRawAlpha_def Let_def c)
    note lin' = Update_linear [OF lin d]
    show ?thesis
      using ok lin' LinearBlend_bounds [OF lin']
      by (simp add: eq c BlendsOk_def BlendOk_def PhaseAlpha_def
          GetBlendedValue_linear [OF lin'] Clamp_id)
  next
    case e
    have eq: "TickRawAlpha cfg d s = (1, s\<lparr>ElapsedTime := ?e\<rparr>)"
      by (simp add: TickRawAlpha_def Let_def e)
    show ?thesis
      using ok by (simp add: eq e BlendsOk_def PhaseAlpha_def)
  qed
  then show "BlendsOk cfg (snd (TickRawAlpha cfg d s))"
    and "fst (TickRawAlpha cfg d s) = PhaseAlpha cfg (snd (TickRawAlpha cfg d s))"
    by simp_all
qed

section \<open>Instant blends\<close>

lemma Lerp_one [simp]: "Lerp a b 1 = b"
  by (simp add: Lerp_def)

lemma LerpVector_one [simp]: "LerpVector a b 1 = b"
  by (cases a; cases b) simp

lemma LerpColor_one [simp]: "LerpColor a b 1 = b"
  by (cases a; cases b) simp

lemma TickRawAlpha_instant:
  assumes "BlendTimeIn cfg = 0" and "BlendTimeOut cfg = 0"
  shows "TickRawAlpha cfg d s = (1, s\<lparr>ElapsedTime := ElapsedTime s + d\<rparr>)"
  using assms by (simp add: TickRawAlpha_def Let_def KINDA_SMALL_NUMBER_def)

lemma Tick_at_target:
  assumes "CapsuleComp s = Some p" and "bHasValidOriginals s"
    and "ApplyEaseCurve cfg (fst (TickRawAlpha cfg d s)) = 1"
  shows "AtTarget X cfg (fst (NotifyTick X cfg d (s, W))) (snd (NotifyTick X cfg d (s, W)) p)"
  using assms(3) by (simp add: Tick_ok [OF assms(1,2)] AtTarget_def TickRawAlpha_fields)

lemma Ticks_at_target:
  assumes "BlendTimeIn cfg = 0" and "BlendTimeOut cfg = 0" and "ApplyEaseCurve cfg 1 = 1"
  shows "CapsuleComp (fst sw) = Some p \<Longrightarrow> bHasValidOriginals (fst sw) \<Longrightarrow>
         AtTarget X cfg (fst sw) (snd sw p) \<Longrightarrow>
         AtTarget X cfg (fst (Ticks X cfg ds sw)) (snd (Ticks X cfg ds sw) p)"
proof (induction ds arbitrary: sw)
  case Nil
  then show ?case by simp
next
  case (Cons d ds)
  let ?sw = "NotifyTick X cfg d sw"
  have sw: "NotifyTick X cfg d sw = NotifyTick X cfg d (fst sw, snd sw)"
    by simp
  have one: "ApplyEaseCurve cfg (fst (TickRawAlpha cfg d (fst sw))) = 1"
    using assms by (simp add: TickRawAlpha_instant)
  have "SameSnapshot (fst sw) (fst ?sw)"
    using Tick_SameSnapshot [of "fst sw" X cfg d "snd sw"] by simp
  then have act: "CapsuleComp (fst ?sw) = Some p" "bHasValidOriginals (fst ?sw)"
    using Cons.prems by (simp_all add: SameSnapshot_def)
  have "AtTarget X cfg (fst ?sw) (snd ?sw p)"
    using Tick_at_target [OF Cons.prems(1,2) one, of X "snd sw"] by simp
  with act show ?case
    using Cons.IH [of ?sw] by simp
qed

lemma Begin_at_target:
  assumes "FindCapsuleComponent X m = Some p" and "BlendTimeIn cfg \<le> KINDA_SMALL_NUMBER"
  shows "AtTarget X cfg (fst (NotifyBegin X cfg (Some m) T (s, W)))
           (snd (NotifyBegin X cfg (Some m) T (s, W)) p)"
  using assms by (simp add: Begin_ok Save_ok Apply_ok AtTarget_def)

text \<open>
  Claim C5, amended. With a blend-in and a blend-out time of 0, and no ease curve (or
  one whose clamped value at 1 is 1): after a \<^verbatim>\<open>NotifyBegin\<close> that finds a component,
  every modified attribute holds its resolved target; every later tick, for any frame
  deltas, computes the raw alpha 1 and leaves every modified attribute at its resolved
  target; and after \<^verbatim>\<open>NotifyEnd\<close> the radius, the half-height and the scale have their
  values from before \<^verbatim>\<open>NotifyBegin\<close>. (What \<^verbatim>\<open>NotifyEnd\<close> writes as line thickness
  and as shape colour is not part of this statement.)
\<close>

theorem instant_blends_hold_target:
  assumes "FindCapsuleComponent X m = Some p"
    and "BlendTimeIn cfg = 0" and "BlendTimeOut cfg = 0"
    and "ApplyEaseCurve cfg 1 = 1"
  shows "AtTarget X cfg (fst (NotifyBegin X cfg (Some m) T (s, W)))
           (snd (NotifyBegin X cfg (Some m) T (s, W)) p)
    \<and> (\<forall>i < length ds. TickAlpha X cfg ds (NotifyBegin X cfg (Some m) T (s, W)) i = 1)
    \<and> AtTarget X cfg (fst (NotifyBegin X cfg (Some m) T (s, W)))
           (snd (Ticks X cfg ds (NotifyBegin X cfg (Some m) T (s, W))) p)
    \<and> CapsuleRadius (snd (NotifyEnd X cfg (Ticks X cfg ds
          (NotifyBegin X cfg (Some m) T (s, W)))) p) = CapsuleRadius (W p)
    \<and> CapsuleHalfHeight (snd (NotifyEnd X cfg (Ticks X cfg ds
          (NotifyBegin X cfg (Some m) T (s, W)))) p) = CapsuleHalfHeight (W p)
    \<and> RelativeScale3D (snd (NotifyEnd X cfg (Ticks X cfg ds
          (NotifyBegin X cfg (Some m) T (s, W)))) p) = RelativeScale3D (W p)"
proof -
  let ?B = "NotifyBegin X cfg (Some m) T (s, W)"
  have small: "BlendTimeIn cfg \<le> KINDA_SMALL_NUMBER"
    using assms(2) by (simp add: KINDA_SMALL_NUMBER_def)
  have b: "AtTarget X cfg (fst ?B) (snd ?B p)"
    by (rule Begin_at_target [OF assms(1) small])
  have act: "CapsuleComp (fst ?B) = Some p" "bHasValidOriginals (fst ?B)"
    by (rule Begin_session(1) [OF assms(1)], rule Begin_session(2) [OF assms(1)])
  have t: "AtTarget X cfg (fst (Ticks X cfg ds ?B)) (snd (Ticks X cfg ds ?B) p)"
    by (rule Ticks_at_target [OF assms(2,3,4) act b])
  have "SameSnapshot (fst ?B) (fst (Ticks X cfg ds ?B))"
    by (rule Ticks_SameSnapshot)
  with t have t': "AtTarget X cfg (fst ?B) (snd (Ticks X cfg ds ?B) p)"
    by (simp add: AtTarget_def SameSnapshot_def)
  show ?thesis
    using b t' Lifecycle_End(1-3) [OF assms(1), where cfg = cfg and ds = ds and T = T
        and s = s and W = W]
    by (simp add: TickAlpha_def TickRawAlpha_instant [OF assms(2,3)])
qed

theorem instant_blends_hold_target_witness:
  "CapsuleRadius (snd (Ticks ExampleExternals InstantConfig [1 / 4, 3]
       (NotifyBegin ExampleExternals InstantConfig (Some 0) 2
          (FreshSession, ExampleWorld))) 7) = 50
   \<and> CapsuleRadius (snd (NotifyEnd ExampleExternals InstantConfig
       (Ticks ExampleExternals InstantConfig [1 / 4, 3]
          (NotifyBegin ExampleExternals InstantConfig (Some 0) 2
             (FreshSession, ExampleWorld)))) 7) = 30"
proof -
  have h: "FindCapsuleComponent ExampleExternals 0 = Some 7"
    by (simp add: ExampleExternals_def)
  have c: "BlendTimeIn InstantConfig = 0" "BlendTimeOut InstantConfig = 0"
    "ApplyEaseCurve InstantConfig 1 = 1"
    by (simp_all add: InstantConfig_def ScenarioConfig_def ApplyEaseCurve_def)
  have m: "bModifyRadius InstantConfig" "NewRadius InstantConfig = 50"
    by (simp_all add: InstantConfig_def ScenarioConfig_def)
  have w: "CapsuleRadius (ExampleWorld 7) = 30"
    by (simp add: ExampleWorld_def ExampleCapsule_def)
  show ?thesis
    using instant_blends_hold_target [OF h c, of 2 FreshSession ExampleWorld "[1 / 4, 3]"]
      m w Begin_session(10) [OF h, where cfg = InstantConfig and T = 2
        and s = FreshSession and W = ExampleWorld]
    by (simp add: AtTarget_def)
qed

text \<open>
  Claim C5 as stated fails when an ease curve is configured: the raw alpha 1 is
  remapped by the curve before the attributes are written. With instant blends, the
  radius modified from 30 toward 50 and a curve that halves its argument, the first tick
  computes the raw alpha 1 and writes the radius 40.
\<close>

theorem ease_curve_moves_instant_blend_off_target:
  "BlendTimeIn EasedConfig = 0 \<and> BlendTimeOut EasedConfig = 0 \<and> bModifyRadius EasedConfig
   \<and> fst (TickRawAlpha EasedConfig (1 / 4)
        (fst (NotifyBegin ExampleExternals EasedConfig (Some 0) 2
           (FreshSession, ExampleWorld)))) = 1
   \<and> TargetRadius (fst (NotifyTick ExampleExternals EasedConfig (1 / 4)
        (NotifyBegin ExampleExternals EasedConfig (Some 0) 2
           (FreshSession, ExampleWorld)))) = 50
   \<and> CapsuleRadius (snd (NotifyTick ExampleExternals EasedConfig (1 / 4)
        (NotifyBegin ExampleExternals EasedConfig (Some 0) 2
           (FreshSession, ExampleWorld))) 7) = 40"
proof -
  let ?B = "NotifyBegin ExampleExternals EasedConfig (Some 0) 2 (FreshSession, ExampleWorld)"
  have h: "FindCapsuleComponent ExampleExternals 0 = Some 7"
    by (simp add: ExampleExternals_def)
  have c: "BlendTimeIn EasedConfig = 0" "BlendTimeOut EasedConfig = 0"
    "bModifyRadius EasedConfig" "NewRadius EasedConfig = 50"
    by (simp_all add: EasedConfig_def InstantConfig_def ScenarioConfig_def)
  have e: "ApplyEaseCurve EasedConfig 1 = 1 / 2"
    by (simp add: EasedConfig_def ApplyEaseCurve_def Clamp_def)
  have w: "CapsuleRadius (ExampleWorld 7) = 30"
    by (simp add: ExampleWorld_def ExampleCapsule_def)
  note bs = Begin_session [OF h, where cfg = EasedConfig and T = 2
      and s = FreshSession and W = ExampleWorld]
  have t: "NotifyTick ExampleExternals EasedConfig (1 / 4) ?B
      = NotifyTick ExampleExternals EasedConfig (1 / 4) (fst ?B, snd ?B)"
    by simp
  show ?thesis
    unfolding t Tick_ok [OF bs(1,2)]
    by (simp add: c e w bs(5,10) TickRawAlpha_instant TickRawAlpha_fields Lerp_def)
qed

section \<open>Monotonicity of the raw alpha\<close>

lemma TickRawAlpha_blends:
  "BlendInAlpha (snd (TickRawAlpha cfg d s)) =
     (if BlendTimeIn cfg > KINDA_SMALL_NUMBER \<and> ElapsedTime s + d < BlendTimeIn cfg
      then Update d (BlendInAlpha s) else BlendInAlpha s)"
  "BlendOutAlpha (snd (TickRawAlpha cfg d s)) =
     (if \<not> (BlendTimeIn cfg > KINDA_SMALL_NUMBER \<and> ElapsedTime s + d < BlendTimeIn cfg)
         \<and> \<not> (ElapsedTime s + d \<ge> BlendTimeIn cfg
                \<and> ElapsedTime s + d \<le> NotifyTotalDuration s - BlendTimeOut cfg)
         \<and> BlendTimeOut cfg > KINDA_SMALL_NUMBER
         \<and> ElapsedTime s + d > NotifyTotalDuration s - BlendTimeOut cfg
      then Update d (BlendOutAlpha s) else BlendOutAlpha s)"
  by (auto simp: TickRawAlpha_def Let_def)

lemma TickRawAlpha_remaining_le:
  assumes "BlendsOk cfg s" and "0 \<le> d"
  shows "BlendTimeIn cfg > KINDA_SMALL_NUMBER \<Longrightarrow>
           BlendTimeRemaining (BlendInAlpha (snd (TickRawAlpha cfg d s)))
             \<le> BlendTimeRemaining (BlendInAlpha s)"
    and "BlendTimeOut cfg > KINDA_SMALL_NUMBER \<Longrightarrow>
           BlendTimeRemaining (BlendOutAlpha (snd (TickRawAlpha cfg d s)))
             \<le> BlendTimeRemaining (BlendOutAlpha s)"
proof -
  show "BlendTimeRemaining (BlendInAlpha (snd (TickRawAlpha cfg d s)))
             \<le> BlendTimeRemaining (BlendInAlpha s)"
    if "BlendTimeIn cfg > KINDA_SMALL_NUMBER"
  proof -
    have lin: "LinearBlend (BlendTimeIn cfg) (BlendInAlpha s)"
      using assms(1) that by (simp add: BlendsOk_def BlendOk_def)
    then have "0 \<le> BlendTimeRemaining (BlendInAlpha s)"
      by (simp add: LinearBlend_def)
    then show ?thesis
      using assms(2) by (simp add: TickRawAlpha_blends Update_remaining [OF lin assms(2)])
  qed
  show "BlendTimeRemaining (BlendOutAlpha (snd (TickRawAlpha cfg d s)))
             \<le> BlendTimeRemaining (BlendOutAlpha s)"
    if "BlendTimeOut cfg > KINDA_SMALL_NUMBER"
  proof -
    have lin: "LinearBlend (BlendTimeOut cfg) (BlendOutAlpha s)"
      using assms(1) that by (simp add: BlendsOk_def BlendOk_def)
    then have "0 \<le> BlendTimeRemaining (BlendOutAlpha s)"
      by (simp add: LinearBlend_def)
    then show ?thesis
      using assms(2) by (simp add: TickRawAlpha_blends Update_remaining [OF lin assms(2)])
  qed
qed

text \<open>The raw alpha of a tick, by the window its elapsed time lies in, when the windows
  do not overlap.\<close>

lemma PhaseAlpha_windows:
  assumes "BlendTimeIn cfg \<le> NotifyTotalDuration s - BlendTimeOut cfg"
  shows "ElapsedTime s < BlendTimeIn cfg \<Longrightarrow>
           PhaseAlpha cfg s =
             (if BlendTimeIn cfg > KINDA_SMALL_NUMBER
              then 1 - BlendTimeRemaining (BlendInAlpha s) / BlendTimeIn cfg else 1)"
    and "NotifyTotalDuration s - BlendTimeOut cfg < ElapsedTime s \<Longrightarrow>
           PhaseAlpha cfg s =
             (if BlendTimeOut cfg > KINDA_SMALL_NUMBER
              then BlendTimeRemaining (BlendOutAlpha s) / BlendTimeOut cfg else 1)"
  using assms by (simp_all add: PhaseAlpha_def)

lemma PhaseAlpha_hold:
  "BlendTimeIn cfg \<le> ElapsedTime s \<Longrightarrow>
   ElapsedTime s \<le> NotifyTotalDuration s - BlendTimeOut cfg \<Longrightarrow> PhaseAlpha cfg s = 1"
  by (simp add: PhaseAlpha_def)


lemma Later_self:
  assumes "BlendTimeIn cfg \<le> NotifyTotalDuration s - BlendTimeOut cfg"
  shows "Later cfg s (ElapsedTime s, PhaseAlpha cfg s)"
  using assms by (simp add: Later_def PhaseAlpha_windows PhaseAlpha_hold)

lemma Later_mono:
  assumes ok: "BlendsOk cfg s" and d: "0 \<le> d"
    and l: "Later cfg (snd (TickRawAlpha cfg d s)) x"
  shows "Later cfg s x"
proof -
  let ?s = "snd (TickRawAlpha cfg d s)"
  have e: "ElapsedTime s \<le> fst x"
    using l d by (simp add: Later_def TickRawAlpha_fields)
  have i: "1 - BlendTimeRemaining (BlendInAlpha s) / BlendTimeIn cfg \<le> snd x"
    if "fst x < BlendTimeIn cfg" "BlendTimeIn cfg > KINDA_SMALL_NUMBER"
  proof -
    have pos: "0 < BlendTimeIn cfg"
      using that(2) KINDA_SMALL_NUMBER_pos by simp
    have "BlendTimeRemaining (BlendInAlpha ?s) / BlendTimeIn cfg
        \<le> BlendTimeRemaining (BlendInAlpha s) / BlendTimeIn cfg"
      using TickRawAlpha_remaining_le(1) [OF ok d that(2)] pos
      by (simp add: divide_right_mono)
    moreover have "1 - BlendTimeRemaining (BlendInAlpha ?s) / BlendTimeIn cfg \<le> snd x"
      using l that by (simp add: Later_def)
    ultimately show ?thesis by simp
  qed
  have o: "snd x \<le> BlendTimeRemaining (BlendOutAlpha s) / BlendTimeOut cfg"
    if "NotifyTotalDuration s - BlendTimeOut cfg < fst x"
      "BlendTimeOut cfg > KINDA_SMALL_NUMBER"
  proof -
    have pos: "0 < BlendTimeOut cfg"
      using that(2) KINDA_SMALL_NUMBER_pos by simp
    have "BlendTimeRemaining (BlendOutAlpha ?s) / BlendTimeOut cfg
        \<le> BlendTimeRemaining (BlendOutAlpha s) / BlendTimeOut cfg"
      using TickRawAlpha_remaining_le(2) [OF ok d that(2)] pos
      by (simp add: divide_right_mono)
    moreover have "snd x \<le> BlendTimeRemaining (BlendOutAlpha ?s) / BlendTimeOut cfg"
      using l that by (simp add: Later_def TickRawAlpha_fields)
    ultimately show ?thesis by simp
  qed
  show ?thesis
    using l e i o by (simp add: Later_def TickRawAlpha_fields)
qed

lemma AlphaTrace_Later:
  assumes "BlendTimeIn cfg \<le> T - BlendTimeOut cfg"
  shows "BlendsOk cfg s \<Longrightarrow> NotifyTotalDuration s = T \<Longrightarrow> \<forall>d \<in> set ds. 0 \<le> d \<Longrightarrow>
         \<forall>x \<in> set (AlphaTrace cfg ds s). Later cfg s x"
proof (induction ds arbitrary: s)
  case Nil
  show ?case by simp
next
  case (Cons d ds)
  let ?s = "snd (TickRawAlpha cfg d s)"
  have d: "0 \<le> d" using Cons.prems(3) by simp
  have ok: "BlendsOk cfg ?s"
    by (rule TickRawAlpha_phase(1) [OF Cons.prems(1) d])
  have T: "NotifyTotalDuration ?s = T"
    using Cons.prems(2) by (simp add: TickRawAlpha_fields)
  have head: "Later cfg ?s (ElapsedTime ?s, fst (TickRawAlpha cfg d s))"
    using Later_self [of cfg ?s] assms T
    by (simp add: TickRawAlpha_phase(2) [OF Cons.prems(1) d])
  have tail: "\<forall>x \<in> set (AlphaTrace cfg ds ?s). Later cfg ?s x"
    using Cons.IH [OF ok T] Cons.prems(3) by auto
  show ?case
    using head tail Later_mono [OF Cons.prems(1) d] by auto
qed

lemma AlphaTrace_sorted:
  assumes "BlendTimeIn cfg \<le> T - BlendTimeOut cfg"
  shows "BlendsOk cfg s \<Longrightarrow> NotifyTotalDuration s = T \<Longrightarrow> \<forall>d \<in> set ds. 0 \<le> d \<Longrightarrow>
         sorted_wrt (AlphaOrdered cfg T) (AlphaTrace cfg ds s)"
proof (induction ds arbitrary: s)
  case Nil
  show ?case by simp
next
  case (Cons d ds)
  let ?s = "snd (TickRawAlpha cfg d s)"
  have d: "0 \<le> d" using Cons.prems(3) by simp
  have ok: "BlendsOk cfg ?s"
    by (rule TickRawAlpha_phase(1) [OF Cons.prems(1) d])
  have T: "NotifyTotalDuration ?s = T"
    using Cons.prems(2) by (simp add: TickRawAlpha_fields)
  have a: "fst (TickRawAlpha cfg d s) = PhaseAlpha cfg ?s"
    by (rule TickRawAlpha_phase(2) [OF Cons.prems(1) d])
  have no: "BlendTimeIn cfg \<le> NotifyTotalDuration ?s - BlendTimeOut cfg"
    using assms T by simp
  have tail: "\<forall>x \<in> set (AlphaTrace cfg ds ?s). Later cfg ?s x"
    using AlphaTrace_Later [OF assms ok T] Cons.prems(3) by auto
  have "AlphaOrdered cfg T (ElapsedTime ?s, PhaseAlpha cfg ?s) y"
    if "y \<in> set (AlphaTrace cfg ds ?s)" for y
  proof -
    have l: "Later cfg ?s y" using tail that by simp
    have "snd y \<ge> PhaseAlpha cfg ?s" if "fst y < BlendTimeIn cfg"
    proof -
      have "ElapsedTime ?s < BlendTimeIn cfg"
        using l that by (simp add: Later_def)
      then show ?thesis
        using l that by (simp add: PhaseAlpha_windows(1) [OF no] Later_def split: if_splits)
    qed
    moreover have "snd y \<le> PhaseAlpha cfg ?s" if "T - BlendTimeOut cfg < ElapsedTime ?s"
    proof -
      have "NotifyTotalDuration ?s - BlendTimeOut cfg < fst y"
        using l that T by (simp add: Later_def)
      then show ?thesis
        using l that T by (simp add: PhaseAlpha_windows(2) [OF no] Later_def split: if_splits)
    qed
    ultimately show ?thesis
      by (simp add: AlphaOrdered_def)
  qed
  then show ?case
    using Cons.IH [OF ok T] Cons.prems(3) by (auto simp: a)
qed


lemma Tick_session:
  assumes "CapsuleComp (fst sw) = Some p" and "bHasValidOriginals (fst sw)"
  shows "fst (NotifyTick X cfg d sw) = snd (TickRawAlpha cfg d (fst sw))"
    and "CapsuleComp (fst (NotifyTick X cfg d sw)) = Some p"
    and "bHasValidOriginals (fst (NotifyTick X cfg d sw))"
proof -
  have "NotifyTick X cfg d sw = NotifyTick X cfg d (fst sw, snd sw)"
    by simp
  then show "fst (NotifyTick X cfg d sw) = snd (TickRawAlpha cfg d (fst sw))"
    by (simp add: Tick_ok [OF assms] del: prod.collapse)
  then show "CapsuleComp (fst (NotifyTick X cfg d sw)) = Some p"
    and "bHasValidOriginals (fst (NotifyTick X cfg d sw))"
    using assms by (simp_all add: TickRawAlpha_fields)
qed

lemma Ticks_elapsed:
  "CapsuleComp (fst sw) = Some p \<Longrightarrow> bHasValidOriginals (fst sw) \<Longrightarrow>
   ElapsedTime (fst (Ticks X cfg ds sw)) = ElapsedTime (fst sw) + sum_list ds"
proof (induction ds arbitrary: sw)
  case Nil
  show ?case by simp
next
  case (Cons d ds)
  note t = Tick_session [OF Cons.prems, of X cfg d]
  show ?case
    using Cons.IH [OF t(2,3)] by (simp add: t(1) TickRawAlpha_fields)
qed

lemma AlphaTrace_length [simp]: "length (AlphaTrace cfg ds s) = length ds"
  by (induction ds arbitrary: s) simp_all

lemma AlphaTrace_nth:
  "CapsuleComp (fst sw) = Some p \<Longrightarrow> bHasValidOriginals (fst sw) \<Longrightarrow> i < length ds \<Longrightarrow>
   AlphaTrace cfg ds (fst sw) ! i = (TickElapsed X cfg ds sw i, TickAlpha X cfg ds sw i)"
proof (induction ds arbitrary: sw i)
  case Nil
  then show ?case by simp
next
  case (Cons d ds)
  note t = Tick_session [OF Cons.prems(1,2), of X cfg d]
  show ?case
  proof (cases i)
    case 0
    then show ?thesis
      by (simp add: TickElapsed_def TickAlpha_def t(1))
  next
    case (Suc j)
    then have "j < length ds" using Cons.prems(3) by simp
    from Cons.IH [OF t(2,3) this] show ?thesis
      using Suc by (simp add: TickElapsed_def TickAlpha_def t(1))
  qed
qed

lemma Begin_BlendsOk:
  assumes "FindCapsuleComponent X m = Some p"
    and "BlendOptionIn cfg = Linear" and "BlendOptionOut cfg = Linear"
  shows "BlendsOk cfg (fst (NotifyBegin X cfg (Some m) T (s, W)))"
  using assms(2,3) KINDA_SMALL_NUMBER_pos
  by (simp add: BlendsOk_def BlendOk_def Begin_session(15,16) [OF assms(1)]
      MakeAlphaBlend_linear)

text \<open>
  Claim C8, amended. With linear blend shapes for both evaluators, non-negative frame
  deltas, and blend windows that do not overlap (the blend-in time is at most the total
  duration minus the blend-out time): after a \<^verbatim>\<open>NotifyBegin\<close> that finds a component, the
  elapsed time of each tick is the sum of the frame deltas so far; for an earlier and a
  later tick, if the later one is still inside the blend-in window the raw alpha has
  not decreased, and if the earlier one is already inside the blend-out window the raw
  alpha has not increased; and the raw alpha of every tick whose elapsed time lies in
  the hold window is exactly 1. The raw alpha is the value before the ease curve, so
  the statement needs no assumption on the curve.
\<close>

theorem raw_alpha_monotone_in_disjoint_windows:
  assumes "FindCapsuleComponent X m = Some p"
    and "BlendOptionIn cfg = Linear" and "BlendOptionOut cfg = Linear"
    and "\<forall>d \<in> set ds. 0 \<le> d"
    and "BlendTimeIn cfg \<le> T - BlendTimeOut cfg"
  shows "(\<forall>i < length ds.
            TickElapsed X cfg ds (NotifyBegin X cfg (Some m) T (s, W)) i
              = sum_list (take (Suc i) ds))
    \<and> (\<forall>i j. i < j \<and> j < length ds \<longrightarrow>
          (TickElapsed X cfg ds (NotifyBegin X cfg (Some m) T (s, W)) j < BlendTimeIn cfg \<longrightarrow>
             TickAlpha X cfg ds (NotifyBegin X cfg (Some m) T (s, W)) i
               \<le> TickAlpha X cfg ds (NotifyBegin X cfg (Some m) T (s, W)) j)
          \<and> (T - BlendTimeOut cfg
                < TickElapsed X cfg ds (NotifyBegin X cfg (Some m) T (s, W)) i \<longrightarrow>
             TickAlpha X cfg ds (NotifyBegin X cfg (Some m) T (s, W)) j
               \<le> TickAlpha X cfg ds (NotifyBegin X cfg (Some m) T (s, W)) i))
    \<and> (\<forall>i < length ds.
          BlendTimeIn cfg \<le> TickElapsed X cfg ds (NotifyBegin X cfg (Some m) T (s, W)) i
          \<and> TickElapsed X cfg ds (NotifyBegin X cfg (Some m) T (s, W)) i
               \<le> T - BlendTimeOut cfg \<longrightarrow>
          TickAlpha X cfg ds (NotifyBegin X cfg (Some m) T (s, W)) i = 1)"
proof -
  let ?B = "NotifyBegin X cfg (Some m) T (s, W)"
  let ?tr = "AlphaTrace cfg ds (fst ?B)"
  note bs = Begin_session [OF assms(1), where cfg = cfg and T = T and s = s and W = W]
  have ok: "BlendsOk cfg (fst ?B)"
    by (rule Begin_BlendsOk [OF assms(1,2,3)])
  have nth: "?tr ! i = (TickElapsed X cfg ds ?B i, TickAlpha X cfg ds ?B i)"
    if "i < length ds" for i
    by (rule AlphaTrace_nth [OF bs(1,2) that])
  have el: "TickElapsed X cfg ds ?B i = sum_list (take (Suc i) ds)" if "i < length ds" for i
    using Ticks_elapsed [OF bs(1,2), of X cfg "take (Suc i) ds"]
    by (simp add: TickElapsed_def bs(3))
  have srt: "sorted_wrt (AlphaOrdered cfg T) ?tr"
    by (rule AlphaTrace_sorted [OF assms(5) ok bs(4) assms(4)])
  have mono: "AlphaOrdered cfg T (?tr ! i) (?tr ! j)" if "i < j" "j < length ds" for i j
    using srt that by (simp add: sorted_wrt_iff_nth_less)
  have lat: "Later cfg (fst ?B) (?tr ! i)" if "i < length ds" for i
    using AlphaTrace_Later [OF assms(5) ok bs(4) assms(4)] that by simp
  have hold: "TickAlpha X cfg ds ?B i = 1"
    if "i < length ds" "BlendTimeIn cfg \<le> TickElapsed X cfg ds ?B i"
      "TickElapsed X cfg ds ?B i \<le> T - BlendTimeOut cfg" for i
    using lat [OF that(1)] that by (simp add: nth Later_def bs(4))
  have ord: "(TickElapsed X cfg ds ?B j < BlendTimeIn cfg \<longrightarrow>
             TickAlpha X cfg ds ?B i \<le> TickAlpha X cfg ds ?B j)
          \<and> (T - BlendTimeOut cfg < TickElapsed X cfg ds ?B i \<longrightarrow>
             TickAlpha X cfg ds ?B j \<le> TickAlpha X cfg ds ?B i)"
    if "i < j" "j < length ds" for i j
    using mono [OF that] that by (simp add: nth AlphaOrdered_def)
  show ?thesis
    using el ord hold by blast
qed


theorem raw_alpha_monotone_in_disjoint_windows_witness:
  "TickAlpha ExampleExternals ScenarioConfig [1 / 8, 1 / 4, 1, 3 / 8, 1 / 8]
       (NotifyBegin ExampleExternals ScenarioConfig (Some 0) 2 (FreshSession, ExampleWorld)) 0
     \<le> TickAlpha ExampleExternals ScenarioConfig [1 / 8, 1 / 4, 1, 3 / 8, 1 / 8]
       (NotifyBegin ExampleExternals ScenarioConfig (Some 0) 2 (FreshSession, ExampleWorld)) 1
   \<and> TickAlpha ExampleExternals ScenarioConfig [1 / 8, 1 / 4, 1, 3 / 8, 1 / 8]
       (NotifyBegin ExampleExternals ScenarioConfig (Some 0) 2 (FreshSession, ExampleWorld)) 2
     = 1
   \<and> TickAlpha ExampleExternals ScenarioConfig [1 / 8, 1 / 4, 1, 3 / 8, 1 / 8]
       (NotifyBegin ExampleExternals ScenarioConfig (Some 0) 2 (FreshSession, ExampleWorld)) 4
     \<le> TickAlpha ExampleExternals ScenarioConfig [1 / 8, 1 / 4, 1, 3 / 8, 1 / 8]
       (NotifyBegin ExampleExternals ScenarioConfig (Some 0) 2 (FreshSession, ExampleWorld)) 3"
proof -
  let ?ds = "[1 / 8, 1 / 4, 1, 3 / 8, 1 / 8] :: real list"
  let ?B = "NotifyBegin ExampleExternals ScenarioConfig (Some 0) 2 (FreshSession, ExampleWorld)"
  have h: "FindCapsuleComponent ExampleExternals 0 = Some 7"
    by (simp add: ExampleExternals_def)
  have c: "BlendOptionIn ScenarioConfig = Linear" "BlendOptionOut ScenarioConfig = Linear"
    by (simp_all add: ScenarioConfig_def)
  have n: "\<forall>d \<in> set ?ds. 0 \<le> d"
    by simp
  have w: "BlendTimeIn ScenarioConfig \<le> 2 - BlendTimeOut ScenarioConfig"
    by (simp add: ScenarioConfig_def)
  note th = raw_alpha_monotone_in_disjoint_windows [OF h c n w, of FreshSession ExampleWorld]
  have e: "TickElapsed ExampleExternals ScenarioConfig ?ds ?B 1 = 3 / 8"
    "TickElapsed ExampleExternals ScenarioConfig ?ds ?B 2 = 11 / 8"
    "TickElapsed ExampleExternals ScenarioConfig ?ds ?B 3 = 14 / 8"
    using th by (simp_all add: eval_nat_numeral)
  have v: "BlendTimeIn ScenarioConfig = 1 / 2" "BlendTimeOut ScenarioConfig = 1 / 2"
    by (simp_all add: ScenarioConfig_def)
  have p1: "TickAlpha ExampleExternals ScenarioConfig ?ds ?B 0
      \<le> TickAlpha ExampleExternals ScenarioConfig ?ds ?B 1"
    using th [THEN conjunct2, THEN conjunct1, rule_format, of 0 1] e v by simp
  have p2: "TickAlpha ExampleExternals ScenarioConfig ?ds ?B 2 = 1"
    using th [THEN conjunct2, THEN conjunct2, rule_format, of 2] e v by simp
  have p3: "TickAlpha ExampleExternals ScenarioConfig ?ds ?B 4
      \<le> TickAlpha ExampleExternals ScenarioConfig ?ds ?B 3"
    using th [THEN conjunct2, THEN conjunct1, rule_format, of 3 4] e v by simp
  show ?thesis
    using p1 p2 p3 by simp
qed

text \<open>
  Claim C8 as stated fails when the windows overlap, because the blend-in branch is
  tried first. With a total duration of 3/2 and blend times of 1 each, the blend-out
  window starts at elapsed 1/2; ticks at elapsed 3/5 and 4/5 lie inside it, and their
  raw alphas are 3/5 and then 4/5: increasing.
\<close>

theorem raw_alpha_rises_inside_overlapping_blend_out_window:
  "BlendOptionIn OverlapConfig = Linear \<and> BlendOptionOut OverlapConfig = Linear
   \<and> EaseCurve OverlapConfig = None
   \<and> 3 / 2 - BlendTimeOut OverlapConfig
       < TickElapsed ExampleExternals OverlapConfig [3 / 5, 1 / 5]
           (NotifyBegin ExampleExternals OverlapConfig (Some 0) (3 / 2)
              (FreshSession, ExampleWorld)) 0
   \<and> TickAlpha ExampleExternals OverlapConfig [3 / 5, 1 / 5]
       (NotifyBegin ExampleExternals OverlapConfig (Some 0) (3 / 2)
          (FreshSession, ExampleWorld)) 0 = 3 / 5
   \<and> TickAlpha ExampleExternals OverlapConfig [3 / 5, 1 / 5]
       (NotifyBegin ExampleExternals OverlapConfig (Some 0) (3 / 2)
          (FreshSession, ExampleWorld)) 1 = 4 / 5"
proof -
  let ?B = "NotifyBegin ExampleExternals OverlapConfig (Some 0) (3 / 2)
      (FreshSession, ExampleWorld)"
  have h: "FindCapsuleComponent ExampleExternals 0 = Some 7"
    by (simp add: ExampleExternals_def)
  have c: "BlendOptionIn OverlapConfig = Linear" "BlendOptionOut OverlapConfig = Linear"
    "EaseCurve OverlapConfig = None" "BlendTimeIn OverlapConfig = 1"
    "BlendTimeOut OverlapConfig = 1"
    by (simp_all add: OverlapConfig_def ScenarioConfig_def)
  note bs = Begin_session [OF h, where cfg = OverlapConfig and T = "3 / 2"
      and s = FreshSession and W = ExampleWorld]
  have t1: "fst (NotifyTick ExampleExternals OverlapConfig (3 / 5) ?B)
      = snd (TickRawAlpha OverlapConfig (3 / 5) (fst ?B))"
    by (rule Tick_session(1) [OF bs(1,2)])
  have a0: "TickRawAlpha OverlapConfig (3 / 5) (fst ?B)
      = (3 / 5, (fst ?B)\<lparr>ElapsedTime := 3 / 5,
           BlendInAlpha := \<lparr>BlendTime = 1, BlendOption = Linear, AlphaLerp = 3 / 5,
             BlendTimeRemaining = 2 / 5\<rparr>\<rparr>)"
    by (simp add: TickRawAlpha_def Let_def c bs(3,4,15,16) KINDA_SMALL_NUMBER_def
        MakeAlphaBlend_def Update_def GetBlendedValue_def Clamp_def)
  have a1: "fst (TickRawAlpha OverlapConfig (1 / 5)
        ((fst ?B)\<lparr>ElapsedTime := 3 / 5,
           BlendInAlpha := \<lparr>BlendTime = 1, BlendOption = Linear, AlphaLerp = 3 / 5,
             BlendTimeRemaining = 2 / 5\<rparr>\<rparr>)) = 4 / 5"
    by (simp add: TickRawAlpha_def Let_def c bs(4) KINDA_SMALL_NUMBER_def
        Update_def GetBlendedValue_def Clamp_def)
  show ?thesis
    by (simp add: c TickElapsed_def TickAlpha_def t1 a0 a1)
qed

section \<open>The scenario of the spec\<close>


















end
